theory Spec2Isabelle
  imports Complex_Main "HOL-Library.Char_ord" "HOL-Library.List_Lexorder"
begin

section \<open>The MD analyzer page\<close>

text \<open>
  The page \<^verbatim>\<open>pages/3_MD_analyzer.py\<close> is a script that the hosting framework runs from
  top to bottom at every user interaction. The model below follows the script: the
  widgets are functions of what the user did, the exceptions of Python are values
  (\<open>Inl\<close>), the session dictionary is a map that is passed through the run, and the
  Python floats are real numbers (rounding is not modelled); where the page can meet an
  infinity or not-a-number, in the side of the box and in the result of the regression,
  a float is a value of the type \<open>npfloat\<close>.

  The molecular-dynamics library, the regression routine, the parsers of the input files
  and Python's \<^verbatim>\<open>float\<close> are not part of the repository. The script receives them in a
  record of collaborators; what the script itself does with their results is modelled
  from the source.
\<close>

subsection \<open>Errors, paths and files\<close>

datatype py_error =
  TypeError | ValueError | IndexError | KeyError | FileNotFoundError | AttributeError
  | StreamlitAPIException

text \<open>A Python or numpy float is a real number, an infinity (\<open>Infty True\<close> is the
  positive one) or not a number.\<close>

datatype npfloat = Fin real | Infty bool | NaN

text \<open>A \<^verbatim>\<open>pathlib.Path\<close> is the list of its parts; paths are ordered as Python orders
  them on a POSIX system, by their lists of parts.\<close>

type_synonym path = "string list"

type_synonym files = "path \<rightharpoonup> string"

text \<open>Opening a file for reading: \<^verbatim>\<open>open(None)\<close> raises \<^verbatim>\<open>TypeError\<close>, a path that
  does not exist raises \<^verbatim>\<open>FileNotFoundError\<close>.\<close>

definition read_file :: "files \<Rightarrow> path option \<Rightarrow> py_error + string" where
  "read_file fs p =
     (case p of
        None \<Rightarrow> Inl TypeError
      | Some q \<Rightarrow> (case fs q of None \<Rightarrow> Inl FileNotFoundError | Some s \<Rightarrow> Inr s))"

subsection \<open>The input resolver (lines 22--38)\<close>

text \<open>\<^verbatim>\<open>st.sidebar.selectbox(label, options)\<close> returns the option the user chose, the first
  option until they choose, and \<^verbatim>\<open>None\<close> when there is no option.\<close>

definition selectbox :: "'a list \<Rightarrow> nat \<Rightarrow> 'a option" where
  "selectbox opts chosen =
     (if opts = [] then None
      else if chosen < length opts then Some (opts ! chosen)
      else Some (opts ! 0))"

record selection =
  xyz_selection :: "path option"
  topo_selection :: "path option"
  pbc_selection :: "path option"

text \<open>What one interaction gives the script: the files the three globs find, the state of
  every widget of the sidebar, and the position of the fit-window slider
  (\<open>None\<close>: the user has not moved it).\<close>

record interaction =
  xyz_found :: "path list"
  topo_found :: "path list"
  pbc_found :: "path list"
  xyz_chosen :: nat
  topo_chosen :: nat
  pbc_chosen :: nat
  rdf_check :: bool
  rdf_button :: bool
  dens_check :: bool
  dens_button :: bool
  msd_check :: bool
  msd_button :: bool
  diel_check :: bool
  diel_button :: bool
  fit_window :: "(int \<times> int) option"

definition resolve :: "interaction \<Rightarrow> selection" where
  "resolve i =
     \<lparr>xyz_selection = selectbox (sort (xyz_found i)) (xyz_chosen i),
      topo_selection = selectbox (sort (topo_found i)) (topo_chosen i),
      pbc_selection = selectbox (sort (pbc_found i)) (pbc_chosen i)\<rparr>"

subsection \<open>The system (the library's Universe)\<close>

record atom =
  name :: string
  resid :: int
  mass :: real

type_synonym position = "real \<times> real \<times> real"

datatype compound = Atoms | Group | Residues | Segments | Molecules | Fragments

text \<open>An atom group is the list of the indices of its atoms.\<close>

type_synonym atom_group = "nat list"

datatype transformation = unwrap atom_group | wrap atom_group compound

text \<open>The selection strings of the page, parsed: \<^verbatim>\<open>"not resid 201"\<close> is
  \<open>sel_not (sel_resid 201)\<close>, \<^verbatim>\<open>"name O"\<close> is \<open>sel_name ''O''\<close>, \<^verbatim>\<open>"all"\<close> is
  \<open>sel_all\<close>.\<close>

datatype sel_expr = sel_all | sel_name string | sel_resid int | sel_not sel_expr

text \<open>The Universe: the atoms of the topology, the frames of the trajectory, the cell
  and the transformations of the trajectory.\<close>

record universe =
  atoms :: "atom list"
  trajectory :: "position list list"
  dimensions :: "npfloat list option"
  transformations :: "transformation list"

subsection \<open>Results of the analyses\<close>

record InterRDF =
  g1 :: atom_group
  g2 :: atom_group
  nbins :: nat
  rdf_range :: "real \<times> real"
  exclusion_block :: "(nat \<times> nat) option"

record rdf_results =
  bins :: "real list"
  rdf :: "real list"

record axis_results =
  mass_density :: "real list"
  hist_bin_edges :: "real list"

record ldens_results =
  res_x :: axis_results
  res_y :: axis_results
  res_z :: axis_results

record msd_analysis =
  timeseries :: "real list"
  n_frames :: nat
  dim_fac :: nat

text \<open>Of the result of the regression the page uses the slope; it reads \<^verbatim>\<open>rvalue\<close>
  into a variable that it never uses.\<close>

record linregress_result =
  slope :: npfloat
  intercept :: npfloat

datatype stored = RDF rdf_results | LDens ldens_results | MSD msd_analysis | Diel real

record exp_curve =
  r_col :: "real list"
  g_OO_col :: "real list"

subsection \<open>The collaborators\<close>

text \<open>
  \<^item> \<open>parse_topology\<close>: the library's reader of the MOL2 topology, from the content
    of the file;
  \<^item> \<open>parse_trajectory\<close>: the library's reader of the XYZ trajectory, from the number
    of atoms of the topology and the content of the file;
  \<^item> \<open>float_of\<close>: Python's \<^verbatim>\<open>float\<close> of a string, which reads a number, an
    infinity (also from a numeral too large for a float) or not-a-number, or raises;
  \<^item> \<open>rdf_run\<close>, \<open>ldens_run\<close>, \<open>msd_run\<close>, \<open>diel_run\<close>: the \<^verbatim>\<open>run\<close> of the four
    analyses, with the arguments the script gives their constructors;
  \<^item> \<open>regress\<close>: \<^verbatim>\<open>scipy.stats.linregress\<close>;
  \<^item> \<open>exp_csv\<close>: what \<^verbatim>\<open>pd.read_csv\<close> reads from the bundled experimental curve.
\<close>

record collab =
  parse_topology :: "string \<Rightarrow> py_error + atom list"
  parse_trajectory :: "nat \<Rightarrow> string \<Rightarrow> py_error + position list list"
  float_of :: "string \<Rightarrow> py_error + npfloat"
  rdf_run :: "universe \<Rightarrow> InterRDF \<Rightarrow> py_error + rdf_results"
  ldens_run :: "universe \<Rightarrow> atom_group \<Rightarrow> real \<Rightarrow> py_error + ldens_results"
  msd_run :: "universe \<Rightarrow> sel_expr \<Rightarrow> string \<Rightarrow> bool \<Rightarrow> py_error + msd_analysis"
  diel_run :: "universe \<Rightarrow> atom_group \<Rightarrow> real \<Rightarrow> bool \<Rightarrow> py_error + real"
  regress :: "real list \<Rightarrow> real list \<Rightarrow> py_error + linregress_result"
  exp_csv :: "py_error + exp_curve"

subsection \<open>The system builder \<^verbatim>\<open>create_u\<close> (lines 41--46)\<close>

text \<open>The library's trajectory reader takes the name of its file through \<^verbatim>\<open>str\<close>: the
  selection \<^verbatim>\<open>None\<close> names the file \<^verbatim>\<open>None\<close> of the working directory.\<close>

definition trajectory_file :: "path option \<Rightarrow> path" where
  "trajectory_file xyz = (case xyz of None \<Rightarrow> [''None''] | Some p \<Rightarrow> p)"

text \<open>\<^verbatim>\<open>mda.Universe(topo, xyz, format="XYZ", topology_format="MOL2")\<close> raises
  \<^verbatim>\<open>TypeError\<close> when the topology is \<^verbatim>\<open>None\<close>; otherwise it opens and parses the
  topology, then opens and parses the file of the trajectory. The new Universe has no
  cell (the XYZ format holds none) and no transformation.\<close>

definition mda_Universe ::
  "collab \<Rightarrow> files \<Rightarrow> path option \<Rightarrow> path option \<Rightarrow> py_error + universe" where
  "mda_Universe c fs topo xyz =
     (case read_file fs topo of
        Inl e \<Rightarrow> Inl e
      | Inr t \<Rightarrow>
          (case parse_topology c t of
             Inl e \<Rightarrow> Inl e
           | Inr ats \<Rightarrow>
               (case read_file fs (Some (trajectory_file xyz)) of
                  Inl e \<Rightarrow> Inl e
                | Inr s \<Rightarrow>
                    (case parse_trajectory c (length ats) s of
                       Inl e \<Rightarrow> Inl e
                     | Inr frames \<Rightarrow>
                         Inr \<lparr>atoms = ats, trajectory = frames,
                              dimensions = None, transformations = []\<rparr>))))"

definition create_u :: "collab \<Rightarrow> files \<Rightarrow> selection \<Rightarrow> py_error + universe" where
  "create_u c fs sel =
     (case mda_Universe c fs (topo_selection sel) (xyz_selection sel) of
        Inl e \<Rightarrow> Inl e
      | Inr u \<Rightarrow>
          (case read_file fs (pbc_selection sel) of
             Inl e \<Rightarrow> Inl e
           | Inr s \<Rightarrow>
               (case float_of c s of
                  Inl e \<Rightarrow> Inl e
                | Inr box_side \<Rightarrow>
                    Inr (u\<lparr>dimensions :=
                           Some [box_side, box_side, box_side, Fin 90, Fin 90, Fin 90]\<rparr>))))"

subsection \<open>Numpy and Python helpers\<close>

text \<open>Indexing \<^verbatim>\<open>a[i]\<close>: a negative index counts from the end, an index out of range
  raises \<^verbatim>\<open>IndexError\<close>.\<close>

definition np_get :: "'a list \<Rightarrow> int \<Rightarrow> py_error + 'a" where
  "np_get a i =
     (if 0 \<le> i \<and> i < int (length a) then Inr (a ! nat i)
      else if i < 0 \<and> 0 \<le> int (length a) + i then Inr (a ! nat (int (length a) + i))
      else Inl IndexError)"

text \<open>Slicing \<^verbatim>\<open>a[i:j]\<close>: a negative bound counts from the end, and each bound is cut
  to the length of the array; a slice never raises.\<close>

definition slice_bound :: "nat \<Rightarrow> int \<Rightarrow> nat" where
  "slice_bound n i = (if i < 0 then nat (max 0 (int n + i)) else min n (nat i))"

definition py_slice :: "'a list \<Rightarrow> int \<Rightarrow> int \<Rightarrow> 'a list" where
  "py_slice a i j =
     take (slice_bound (length a) j - slice_bound (length a) i)
       (drop (slice_bound (length a) i) a)"

text \<open>\<^verbatim>\<open>int(v)\<close> of a float cuts towards zero.\<close>

definition py_int :: "real \<Rightarrow> int" where
  "py_int v = (if 0 \<le> v then \<lfloor>v\<rfloor> else \<lceil>v\<rceil>)"

text \<open>\<^verbatim>\<open>np.arange(a, b)\<close> of two integers.\<close>

definition arange :: "int \<Rightarrow> int \<Rightarrow> int list" where
  "arange a b = [a..b - 1]"

text \<open>A numpy float times and over a number. Division by zero gives an infinity or
  not-a-number, with a warning and no exception.\<close>

definition np_times :: "npfloat \<Rightarrow> real \<Rightarrow> npfloat" where
  "np_times a k =
     (case a of
        Fin v \<Rightarrow> Fin (v * k)
      | Infty pos \<Rightarrow> (if k = 0 then NaN else Infty (pos = (0 < k)))
      | NaN \<Rightarrow> NaN)"

definition np_over :: "npfloat \<Rightarrow> real \<Rightarrow> npfloat" where
  "np_over a k =
     (case a of
        Fin v \<Rightarrow> (if k = 0 then (if v = 0 then NaN else Infty (0 < v)) else Fin (v / k))
      | Infty pos \<Rightarrow> Infty (pos = (0 \<le> k))
      | NaN \<Rightarrow> NaN)"

text \<open>Adding two one-dimensional arrays: elementwise when the lengths agree, an array of
  one element is broadcast, and any other pair of shapes raises \<^verbatim>\<open>ValueError\<close>.\<close>

definition np_add :: "real list \<Rightarrow> real list \<Rightarrow> py_error + real list" where
  "np_add a b =
     (if length a = length b then Inr (map2 (+) a b)
      else if length a = 1 then Inr (map (\<lambda>v. hd a + v) b)
      else if length b = 1 then Inr (map (\<lambda>v. v + hd b) a)
      else Inl ValueError)"

subsection \<open>What the page shows\<close>

text \<open>A written line is the list of the parts of its f-string; \<open>SciE d v\<close> is the value
  \<open>v\<close> under the format \<^verbatim>\<open>.dE\<close> (scientific notation with \<open>d\<close> decimals).\<close>

datatype part = Lit string | IntNum int | Num real | SciE nat npfloat

record trace =
  trace_name :: string
  trace_x :: "real list"
  trace_y :: "real list"
  line_style :: "(string \<times> string) list"
  secondary_y :: bool

record axis =
  title_text :: "string option"
  axis_range :: "(real \<times> real) option"

record figure =
  traces :: "trace list"
  xaxis :: axis
  yaxis :: axis
  yaxis2 :: axis

datatype element = Write "part list" | PlotlyChart figure

definition no_axis :: axis where
  "no_axis = \<lparr>title_text = None, axis_range = None\<rparr>"

definition Scatter :: "real list \<Rightarrow> real list \<Rightarrow> string \<Rightarrow> (string \<times> string) list \<Rightarrow> trace" where
  "Scatter a b n l =
     \<lparr>trace_name = n, trace_x = a, trace_y = b, line_style = l, secondary_y = False\<rparr>"

subsection \<open>The MSD fit (lines 205--268)\<close>

definition timestep :: int where
  "timestep = 100"

text \<open>\<^verbatim>\<open>lagtimes = np.arange(nframes) * timestep\<close>\<close>

definition lagtimes_of :: "nat \<Rightarrow> int list" where
  "lagtimes_of nframes = map (\<lambda>k. int k * timestep) [0..<nframes]"

text \<open>The range slider of the hosting framework. It refuses bounds of which the lower is
  not below the upper, with a \<^verbatim>\<open>StreamlitAPIException\<close>. Otherwise it gives the two
  values the user set when they are a position of the slider (inside the bounds, the
  first not above the second), and the initial pair otherwise.\<close>

definition slider ::
  "int \<Rightarrow> int \<Rightarrow> int \<times> int \<Rightarrow> (int \<times> int) option \<Rightarrow> py_error + int \<times> int" where
  "slider min_value max_value initial chosen =
     (if max_value \<le> min_value then Inl StreamlitAPIException
      else
        Inr (case chosen of
               None \<Rightarrow> initial
             | Some (a, b) \<Rightarrow>
                 (if min_value \<le> a \<and> a \<le> b \<and> b \<le> max_value then (a, b) else initial)))"

record fit =
  start_time :: int
  end_time :: int
  start_index :: int
  end_index :: int
  msd_fig :: figure
  linear_model :: linregress_result
  diffusivity :: npfloat

text \<open>Everything between the first \<^verbatim>\<open>st.write\<close> of the MSD section and the second: the
  lag-time axis, the slider, the frame indices, the figure, the regression and \<open>D\<close>.
  The first argument is the regression routine.\<close>

definition msd_fit ::
  "(real list \<Rightarrow> real list \<Rightarrow> py_error + linregress_result) \<Rightarrow> msd_analysis \<Rightarrow>
     (int \<times> int) option \<Rightarrow> py_error + fit" where
  "msd_fit lr M chosen =
     (let msd = timeseries M;
          lagtimes = lagtimes_of (n_frames M)
      in
      case np_get lagtimes 0 of
        Inl e \<Rightarrow> Inl e
      | Inr lo \<Rightarrow>
      (case np_get lagtimes (- 1) of
        Inl e \<Rightarrow> Inl e
      | Inr hi \<Rightarrow>
      (case slider lo hi (lo, hi) chosen of
        Inl e \<Rightarrow> Inl e
      | Inr (t0, t1) \<Rightarrow>
      (let i0 = py_int (real_of_int t0 / real_of_int timestep);
          i1 = py_int (real_of_int t1 / real_of_int timestep);
          tr_msd = Scatter (map real_of_int lagtimes) msd ''MSD'' [];
          tr_one = (Scatter (map real_of_int (arange t0 t1)) (map real_of_int (arange t0 t1))
                      ''slope = 1'' [(''dash'', ''dash'')])\<lparr>secondary_y := True\<rparr>
      in
      case np_get msd (t0 div timestep) of
        Inl e \<Rightarrow> Inl e
      | Inr y0 \<Rightarrow>
      (case np_get msd (t1 div timestep) of
        Inl e \<Rightarrow> Inl e
      | Inr y1 \<Rightarrow>
      (let fig =
            \<lparr>traces = [tr_msd, tr_one],
             xaxis = \<lparr>title_text = Some ''lagtime (fs)'',
                      axis_range = Some (real_of_int t0, real_of_int t1)\<rparr>,
             yaxis = \<lparr>title_text = Some (''MSD ('' @ [CHR 0xC3, CHR 0x85] @ ''^2 / fs)''),
                      axis_range = Some (y0, y1)\<rparr>,
             yaxis2 = \<lparr>title_text = Some [],
                       axis_range = Some (real_of_int t0, real_of_int t1)\<rparr>\<rparr>
      in
      case lr (map real_of_int (py_slice lagtimes i0 i1)) (py_slice msd i0 i1) of
        Inl e \<Rightarrow> Inl e
      | Inr m \<Rightarrow>
          Inr \<lparr>start_time = t0, end_time = t1, start_index = i0, end_index = i1,
               msd_fig = fig, linear_model = m,
               diffusivity = np_over (np_times (slope m) 1) (real (2 * dim_fac M))\<rparr>))))))"

text \<open>The line the page writes for the diffusivity: \<open>D\<close> times \<^verbatim>\<open>10**-5\<close>, with the
  format \<^verbatim>\<open>.3E\<close>.\<close>

definition diffusivity_line :: "npfloat \<Rightarrow> element" where
  "diffusivity_line D =
     Write [Lit ''Self-diffusivity coefficient: '', SciE 3 (np_times D (1 / 10 ^ 5)),
            Lit ('' m'' @ [CHR 0xC2, CHR 0xB2] @ ''/s'')]"

subsection \<open>The regression routine\<close>

text \<open>\<^verbatim>\<open>scipy.stats.linregress(x, y)\<close>, as the library computes it: inputs whose \<open>x\<close>
  values are all the same (more than one of them) raise \<^verbatim>\<open>ValueError\<close>, as do inputs
  of different lengths; the slope is the mean product of the deviations over the mean
  square deviation of \<open>x\<close>, which for a single point is \<open>0 / 0\<close>. What the routine does
  with an empty input depends on the version of the library (older versions raise
  \<^verbatim>\<open>ValueError\<close>, newer ones warn and return not-a-number): it is the first argument.\<close>

definition mean :: "real list \<Rightarrow> real" where
  "mean a = sum_list a / real (length a)"

definition linregress ::
  "py_error + linregress_result \<Rightarrow> real list \<Rightarrow> real list \<Rightarrow> py_error + linregress_result" where
  "linregress on_empty a b =
     (if a = [] \<or> b = [] then on_empty
      else if Max (set a) = Min (set a) \<and> 1 < length a then Inl ValueError
      else if length a \<noteq> length b then Inl ValueError
      else
        let xmean = mean a;
            ymean = mean b;
            ssxm = mean (map (\<lambda>v. (v - xmean) * (v - xmean)) a);
            ssxym = mean (map2 (\<lambda>v w. (v - xmean) * (w - ymean)) a b);
            sl = np_over (Fin ssxym) ssxm
        in Inr \<lparr>slope = sl,
                intercept = (case sl of Fin v \<Rightarrow> Fin (ymean - v * xmean) | _ \<Rightarrow> NaN)\<rparr>)"

subsection \<open>Session state and the record of a run\<close>

text \<open>A run of the script carries the session dictionary, the list of the calls it made
  to the system builder and to the \<^verbatim>\<open>run\<close> of an analysis (named by the session key of
  the metric), and the list of what it has put on the page. An exception stops the
  run: the outcome keeps the error and the state reached.\<close>

datatype call = BuildSystem selection | RunAnalysis string

record page_state =
  session_state :: "string \<rightharpoonup> stored"
  calls :: "call list"
  rendered :: "element list"

type_synonym outcome = "py_error option \<times> page_state"

definition and_then :: "outcome \<Rightarrow> (page_state \<Rightarrow> outcome) \<Rightarrow> outcome" where
  "and_then r f = (case r of (None, s) \<Rightarrow> f s | (Some e, s) \<Rightarrow> (Some e, s))"

definition called :: "call \<Rightarrow> page_state \<Rightarrow> page_state" where
  "called k s = s\<lparr>calls := calls s @ [k]\<rparr>"

definition shown :: "element \<Rightarrow> page_state \<Rightarrow> page_state" where
  "shown el s = s\<lparr>rendered := rendered s @ [el]\<rparr>"

text \<open>\<^verbatim>\<open>st.session_state[key] = analysis.run()\<close>\<close>

definition run_and_store :: "string \<Rightarrow> py_error + stored \<Rightarrow> page_state \<Rightarrow> outcome" where
  "run_and_store key r s =
     (case r of
        Inl e \<Rightarrow> (Some e, called (RunAnalysis key) s)
      | Inr v \<Rightarrow>
          (None, (called (RunAnalysis key) s)\<lparr>session_state := (session_state s)(key \<mapsto> v)\<rparr>))"

text \<open>The caching pattern of every metric (lines 75--78, 126--129, 199--202, 286--289):
  \<^verbatim>\<open>if key not in st.session_state: st.session_state[key] = a.run()\<close>, then
  \<^verbatim>\<open>if st.sidebar.button(...): st.session_state[key] = a.run()\<close>.\<close>

definition cached_run :: "string \<Rightarrow> bool \<Rightarrow> py_error + stored \<Rightarrow> page_state \<Rightarrow> outcome" where
  "cached_run key button r s =
     and_then (if key \<notin> dom (session_state s) then run_and_store key r s else (None, s))
       (\<lambda>s1. if button then run_and_store key r s1 else (None, s1))"

text \<open>\<^verbatim>\<open>st.session_state[key]\<close>, and the attribute reads on what it holds.\<close>

definition lookup :: "page_state \<Rightarrow> string \<Rightarrow> py_error + stored" where
  "lookup s key = (case session_state s key of None \<Rightarrow> Inl KeyError | Some v \<Rightarrow> Inr v)"

definition as_rdf :: "stored \<Rightarrow> py_error + rdf_results" where
  "as_rdf v = (case v of RDF r \<Rightarrow> Inr r | _ \<Rightarrow> Inl AttributeError)"

definition as_ldens :: "stored \<Rightarrow> py_error + ldens_results" where
  "as_ldens v = (case v of LDens l \<Rightarrow> Inr l | _ \<Rightarrow> Inl AttributeError)"

definition as_msd :: "stored \<Rightarrow> py_error + msd_analysis" where
  "as_msd v = (case v of MSD m \<Rightarrow> Inr m | _ \<Rightarrow> Inl AttributeError)"

definition as_diel :: "stored \<Rightarrow> py_error + real" where
  "as_diel v = (case v of Diel d \<Rightarrow> Inr d | _ \<Rightarrow> Inl AttributeError)"

subsection \<open>Atom selections\<close>

text \<open>A selection keeps the atoms that match, in the order of the system.\<close>

fun matches :: "atom \<Rightarrow> sel_expr \<Rightarrow> bool" where
  "matches a sel_all = True"
| "matches a (sel_name n) = (name a = n)"
| "matches a (sel_resid r) = (resid a = r)"
| "matches a (sel_not e) = (\<not> matches a e)"

definition all_atoms :: "universe \<Rightarrow> atom_group" where
  "all_atoms u = [0..<length (atoms u)]"

definition select_atoms :: "universe \<Rightarrow> sel_expr \<Rightarrow> atom_group" where
  "select_atoms u e = filter (\<lambda>k. matches (atoms u ! k) e) [0..<length (atoms u)]"

text \<open>\<^verbatim>\<open>u.trajectory.add_transformations(*workflow)\<close>: the library refuses a trajectory
  that already has transformations.\<close>

definition add_transformations :: "universe \<Rightarrow> transformation list \<Rightarrow> py_error + universe" where
  "add_transformations u ws =
     (if transformations u \<noteq> [] then Inl ValueError else Inr (u\<lparr>transformations := ws\<rparr>))"

subsection \<open>The RDF section (lines 53--110)\<close>

definition rdf_setup :: "universe \<Rightarrow> py_error + universe \<times> InterRDF" where
  "rdf_setup u =
     (let water = select_atoms u (sel_not (sel_resid 201));
          workflow = [unwrap (all_atoms u), wrap water Residues]
      in
      case add_transformations u workflow of
        Inl e \<Rightarrow> Inl e
      | Inr u' \<Rightarrow>
          Inr (u', \<lparr>g1 = select_atoms u' (sel_name ''O''),
                    g2 = select_atoms u' (sel_name ''O''),
                    nbins = 500,
                    rdf_range = (2, 9),
                    exclusion_block = Some (1, 1)\<rparr>))"

definition rdf_figure :: "exp_curve \<Rightarrow> rdf_results \<Rightarrow> figure" where
  "rdf_figure ex r =
     \<lparr>traces = [Scatter (r_col ex) (g_OO_col ex) ''Experimental'' [],
                Scatter (bins r) (rdf r) ''Calculated'' []],
      xaxis = \<lparr>title_text = Some (''r ('' @ [CHR 0xC3, CHR 0x85] @ '')''), axis_range = None\<rparr>,
      yaxis = \<lparr>title_text = Some ''g(r) O-O'', axis_range = None\<rparr>,
      yaxis2 = no_axis\<rparr>"

definition rdf_section ::
  "collab \<Rightarrow> files \<Rightarrow> selection \<Rightarrow> interaction \<Rightarrow> page_state \<Rightarrow> outcome" where
  "rdf_section c fs sel i s =
     (if \<not> rdf_check i then (None, s)
      else
        case create_u c fs sel of
          Inl e \<Rightarrow> (Some e, called (BuildSystem sel) s)
        | Inr u \<Rightarrow>
            (case rdf_setup u of
               Inl e \<Rightarrow> (Some e, called (BuildSystem sel) s)
             | Inr (u', cfg) \<Rightarrow>
                 and_then
                   (cached_run ''rdf_OO'' (rdf_button i) (map_sum id RDF (rdf_run c u' cfg))
                      (called (BuildSystem sel) s))
                   (\<lambda>s1. case lookup s1 ''rdf_OO'' of
                            Inl e \<Rightarrow> (Some e, s1)
                          | Inr v \<Rightarrow>
                              (case exp_csv c of
                                 Inl e \<Rightarrow> (Some e, s1)
                               | Inr ex \<Rightarrow>
                                   (case as_rdf v of
                                      Inl e \<Rightarrow> (Some e, s1)
                                    | Inr r \<Rightarrow>
                                        (None, shown (PlotlyChart (rdf_figure ex r)) s1))))))"

subsection \<open>The linear density section (lines 116--183)\<close>

text \<open>\<^verbatim>\<open>average = (x.mass_density + y.mass_density + z.mass_density) / 3\<close>\<close>

definition ldens_average :: "ldens_results \<Rightarrow> py_error + real list" where
  "ldens_average l =
     (case np_add (mass_density (res_x l)) (mass_density (res_y l)) of
        Inl e \<Rightarrow> Inl e
      | Inr xy \<Rightarrow>
          (case np_add xy (mass_density (res_z l)) of
             Inl e \<Rightarrow> Inl e
           | Inr xyz \<Rightarrow> Inr (map (\<lambda>v. v / 3) xyz)))"

definition ldens_figure :: "ldens_results \<Rightarrow> real list \<Rightarrow> figure" where
  "ldens_figure l average =
     \<lparr>traces =
        [Scatter (hist_bin_edges (res_x l)) (mass_density (res_x l)) ''X''
           [(''width'', ''0.5''), (''color'', ''red'')],
         Scatter (hist_bin_edges (res_y l)) (mass_density (res_y l)) ''Y''
           [(''width'', ''0.5''), (''color'', ''green'')],
         Scatter (hist_bin_edges (res_z l)) (mass_density (res_z l)) ''Z''
           [(''width'', ''0.5''), (''color'', ''blue'')],
         Scatter (hist_bin_edges (res_z l)) average ''Average''
           [(''width'', ''3''), (''color'', ''black'')]],
      xaxis = no_axis, yaxis = no_axis, yaxis2 = no_axis\<rparr>"

definition dens_section ::
  "collab \<Rightarrow> files \<Rightarrow> selection \<Rightarrow> interaction \<Rightarrow> page_state \<Rightarrow> outcome" where
  "dens_section c fs sel i s =
     (if \<not> dens_check i then (None, s)
      else
        case create_u c fs sel of
          Inl e \<Rightarrow> (Some e, called (BuildSystem sel) s)
        | Inr u \<Rightarrow>
            and_then
              (cached_run ''ldens'' (dens_button i)
                 (map_sum id LDens (ldens_run c u (all_atoms u) (1 / 10)))
                 (called (BuildSystem sel) s))
              (\<lambda>s1. case lookup s1 ''ldens'' of
                       Inl e \<Rightarrow> (Some e, s1)
                     | Inr v \<Rightarrow>
                         (case as_ldens v of
                            Inl e \<Rightarrow> (Some e, s1)
                          | Inr l \<Rightarrow>
                              (case ldens_average l of
                                 Inl e \<Rightarrow> (Some e, s1)
                               | Inr average \<Rightarrow>
                                   (None, shown (PlotlyChart (ldens_figure l average)) s1)))))"

subsection \<open>The MSD section (lines 189--270)\<close>

definition timestep_line :: element where
  "timestep_line =
     Write [Lit ''Calculating MSD with a timestep of '', IntNum timestep, Lit '' fs'']"

definition msd_section ::
  "collab \<Rightarrow> files \<Rightarrow> selection \<Rightarrow> interaction \<Rightarrow> page_state \<Rightarrow> outcome" where
  "msd_section c fs sel i s =
     (if \<not> msd_check i then (None, s)
      else
        case create_u c fs sel of
          Inl e \<Rightarrow> (Some e, called (BuildSystem sel) s)
        | Inr u \<Rightarrow>
            and_then
              (cached_run ''MSD'' (msd_button i)
                 (map_sum id MSD (msd_run c u sel_all ''xyz'' True))
                 (called (BuildSystem sel) s))
              (\<lambda>s1. case lookup s1 ''MSD'' of
                       Inl e \<Rightarrow> (Some e, s1)
                     | Inr v \<Rightarrow>
                         (case as_msd v of
                            Inl e \<Rightarrow> (Some e, s1)
                          | Inr M \<Rightarrow>
                              (case msd_fit (regress c) M (fit_window i) of
                                 Inl e \<Rightarrow> (Some e, shown timestep_line s1)
                               | Inr f \<Rightarrow>
                                   (None,
                                    shown (PlotlyChart (msd_fig f))
                                      (shown (diffusivity_line (diffusivity f))
                                         (shown timestep_line s1)))))))"

subsection \<open>The dielectric constant section (lines 276--292)\<close>

definition diel_section ::
  "collab \<Rightarrow> files \<Rightarrow> selection \<Rightarrow> interaction \<Rightarrow> page_state \<Rightarrow> outcome" where
  "diel_section c fs sel i s =
     (if \<not> diel_check i then (None, s)
      else
        case create_u c fs sel of
          Inl e \<Rightarrow> (Some e, called (BuildSystem sel) s)
        | Inr u \<Rightarrow>
            and_then
              (cached_run ''diel'' (diel_button i)
                 (map_sum id Diel (diel_run c u (all_atoms u) (29815 / 100) True))
                 (called (BuildSystem sel) s))
              (\<lambda>s1. case lookup s1 ''diel'' of
                       Inl e \<Rightarrow> (Some e, s1)
                     | Inr v \<Rightarrow>
                         (case as_diel v of
                            Inl e \<Rightarrow> (Some e, s1)
                          | Inr eps_mean \<Rightarrow>
                              (None,
                               shown (Write [Lit ''Dielectric constant: '', Num eps_mean]) s1))))"

subsection \<open>One run of the page, and a session of runs\<close>

definition page :: "collab \<Rightarrow> files \<Rightarrow> interaction \<Rightarrow> page_state \<Rightarrow> outcome" where
  "page c fs i s =
     and_then (rdf_section c fs (resolve i) i s)
       (\<lambda>s1. and_then (dens_section c fs (resolve i) i s1)
         (\<lambda>s2. and_then (msd_section c fs (resolve i) i s2)
           (\<lambda>s3. diel_section c fs (resolve i) i s3)))"

text \<open>Between two runs only the session dictionary stays; it stays also when the run
  stopped on an exception.\<close>

definition fresh :: "(string \<rightharpoonup> stored) \<Rightarrow> page_state" where
  "fresh ss = \<lparr>session_state = ss, calls = [], rendered = []\<rparr>"

definition rerun :: "collab \<Rightarrow> files \<times> interaction \<Rightarrow> (string \<rightharpoonup> stored) \<Rightarrow> (string \<rightharpoonup> stored)" where
  "rerun c step ss = session_state (snd (page c (fst step) (snd step) (fresh ss)))"

definition reruns ::
  "collab \<Rightarrow> (files \<times> interaction) list \<Rightarrow> (string \<rightharpoonup> stored) \<Rightarrow> (string \<rightharpoonup> stored)" where
  "reruns c steps ss = fold (rerun c) steps ss"

subsection \<open>Terms of the specification\<close>

text \<open>The sub-series of an array over the frames \<open>i, \<dots>, j - 1\<close>.\<close>

definition sub_series :: "'a list \<Rightarrow> int \<Rightarrow> int \<Rightarrow> 'a list" where
  "sub_series a i j = map (\<lambda>k. a ! k) [nat i..<nat j]"

text \<open>What a fit keeps of its window and of the regression.\<close>

definition fit_summary :: "fit \<Rightarrow> int \<times> int \<times> int \<times> int \<times> linregress_result \<times> npfloat" where
  "fit_summary f =
     (start_time f, end_time f, start_index f, end_index f, linear_model f, diffusivity f)"

text \<open>The fit of section 4.5 on the window from the lag time \<open>t0\<close> to the lag time \<open>t1\<close>:
  the two lag times "are converted to frame indices by integer division by the
  timestep", the regression "is run on the MSD sub-series within that frame-index
  range", and "the fitted slope is converted to a diffusivity coefficient via
  D = slope / (2 \<times> dimensionality factor)".\<close>

definition window_fit ::
  "(real list \<Rightarrow> real list \<Rightarrow> py_error + linregress_result) \<Rightarrow> msd_analysis \<Rightarrow> int \<Rightarrow> int \<Rightarrow>
     py_error + int \<times> int \<times> int \<times> int \<times> linregress_result \<times> npfloat" where
  "window_fit lr M t0 t1 =
     map_sum id
       (\<lambda>m. (t0, t1, t0 div timestep, t1 div timestep, m,
             np_over (np_times (slope m) 1) (real (2 * dim_fac M))))
       (lr (map real_of_int
              (sub_series (lagtimes_of (n_frames M)) (t0 div timestep) (t1 div timestep)))
           (sub_series (timeseries M) (t0 div timestep) (t1 div timestep)))"

text \<open>Ordinary least squares: the sum of the squared residuals of the line
  \<open>c + d * v\<close> on the points \<open>(v, w)\<close>, and the slope and the intercept of the textbook
  formulas.\<close>

definition sse :: "real list \<Rightarrow> real list \<Rightarrow> real \<Rightarrow> real \<Rightarrow> real" where
  "sse a b c d = sum_list (map2 (\<lambda>v w. (w - (c + d * v)) * (w - (c + d * v))) a b)"

definition ols_slope :: "real list \<Rightarrow> real list \<Rightarrow> real" where
  "ols_slope a b =
     (real (length a) * sum_list (map2 (\<lambda>v w. v * w) a b) - sum_list a * sum_list b) /
     (real (length a) * sum_list (map (\<lambda>v. v * v) a) - sum_list a * sum_list a)"

definition ols_intercept :: "real list \<Rightarrow> real list \<Rightarrow> real" where
  "ols_intercept a b = (sum_list b - ols_slope a b * sum_list a) / real (length a)"

subsection \<open>The pair function of the library, from the specification\<close>

text \<open>
  Modelled from the spec: which pairs the library's \<^verbatim>\<open>InterRDF\<close> counts and where its
  bins lie; the class is not part of the repository. Section 4.3: the function is
  computed "over a fixed distance range" with "a fixed bin count", "excluding a
  configurable block of self-pairs", with "equally-spaced radial bins". A pair is an
  atom of the first group and an atom of the second; with an exclusion block \<open>(a, b)\<close>
  the pair of the \<open>i\<close>-th atom of the first group and the \<open>j\<close>-th of the second is left
  out when \<open>i div a = j div b\<close>.
\<close>

definition counted_pairs :: "InterRDF \<Rightarrow> (nat \<times> nat) list" where
  "counted_pairs cfg =
     concat (map (\<lambda>i. map (\<lambda>j. (g1 cfg ! i, g2 cfg ! j))
                         (filter (\<lambda>j. case exclusion_block cfg of
                                        None \<Rightarrow> True
                                      | Some (a, b) \<Rightarrow> i div a \<noteq> j div b)
                            [0..<length (g2 cfg)]))
                 [0..<length (g1 cfg)])"

definition bin_edges :: "InterRDF \<Rightarrow> real list" where
  "bin_edges cfg =
     map (\<lambda>k. fst (rdf_range cfg)
               + real k * (snd (rdf_range cfg) - fst (rdf_range cfg)) / real (nbins cfg))
       [0..<nbins cfg + 1]"

subsection \<open>The four metrics\<close>

text \<open>The session key of a metric, its checkbox, its recalculate button, and what its
  \<^verbatim>\<open>run\<close> computes on a system, as the four sections give them; \<open>fresh_result\<close> is what
  a run of the page computes for the metric from the selection of the interaction.\<close>

datatype metric = Rdf | Density | Msd | Dielectric

fun key_of :: "metric \<Rightarrow> string" where
  "key_of Rdf = ''rdf_OO''"
| "key_of Density = ''ldens''"
| "key_of Msd = ''MSD''"
| "key_of Dielectric = ''diel''"

fun enabled :: "metric \<Rightarrow> interaction \<Rightarrow> bool" where
  "enabled Rdf i = rdf_check i"
| "enabled Density i = dens_check i"
| "enabled Msd i = msd_check i"
| "enabled Dielectric i = diel_check i"

fun recalculate :: "metric \<Rightarrow> interaction \<Rightarrow> bool" where
  "recalculate Rdf i = rdf_button i"
| "recalculate Density i = dens_button i"
| "recalculate Msd i = msd_button i"
| "recalculate Dielectric i = diel_button i"

fun computed :: "collab \<Rightarrow> universe \<Rightarrow> metric \<Rightarrow> py_error + stored" where
  "computed c u Rdf =
     (case rdf_setup u of
        Inl e \<Rightarrow> Inl e
      | Inr (u', cfg) \<Rightarrow> map_sum id RDF (rdf_run c u' cfg))"
| "computed c u Density = map_sum id LDens (ldens_run c u (all_atoms u) (1 / 10))"
| "computed c u Msd = map_sum id MSD (msd_run c u sel_all ''xyz'' True)"
| "computed c u Dielectric = map_sum id Diel (diel_run c u (all_atoms u) (29815 / 100) True)"

definition fresh_result :: "collab \<Rightarrow> files \<Rightarrow> interaction \<Rightarrow> metric \<Rightarrow> py_error + stored" where
  "fresh_result c fs i m =
     (case create_u c fs (resolve i) of Inl e \<Rightarrow> Inl e | Inr u \<Rightarrow> computed c u m)"

definition any_enabled :: "interaction \<Rightarrow> bool" where
  "any_enabled i = (rdf_check i \<or> dens_check i \<or> msd_check i \<or> diel_check i)"

subsection \<open>Example data\<close>

text \<open>A series of three frames, and one of five, that grow by 6 per frame, that is by
  0.06 per femtosecond of lag time; a series of three frames of a system that does not
  move, with a small negative value, as the estimator of the library leaves them by
  round-off. A system of three atoms, two of them oxygens, one of these in residue 201,
  with a trajectory of three frames and the cell of side 18; the files it is built
  from; collaborators that parse these files only, with a regression that returns
  not-a-number on an empty input; and a visit of the page with nothing enabled.\<close>

definition msd3 :: msd_analysis where
  "msd3 = \<lparr>timeseries = [0, 6, 12], n_frames = 3, dim_fac = 3\<rparr>"

definition msd5 :: msd_analysis where
  "msd5 = \<lparr>timeseries = [0, 6, 12, 18, 24], n_frames = 5, dim_fac = 3\<rparr>"


definition demo_universe :: universe where
  "demo_universe =
     \<lparr>atoms = [\<lparr>name = ''O'', resid = 1, mass = 16\<rparr>,
               \<lparr>name = ''H'', resid = 1, mass = 1\<rparr>,
               \<lparr>name = ''O'', resid = 201, mass = 16\<rparr>],
      trajectory = [[(0, 0, 0), (1, 0, 0), (5, 5, 5)],
                    [(1, 0, 0), (2, 0, 0), (5, 5, 5)],
                    [(2, 0, 0), (3, 0, 0), (5, 5, 5)]],
      dimensions = Some [Fin 18, Fin 18, Fin 18, Fin 90, Fin 90, Fin 90],
      transformations = []\<rparr>"

definition demo_ldens :: ldens_results where
  "demo_ldens =
     \<lparr>res_x = \<lparr>mass_density = [3, 6], hist_bin_edges = [0, 9, 18]\<rparr>,
      res_y = \<lparr>mass_density = [0, 9], hist_bin_edges = [0, 9, 18]\<rparr>,
      res_z = \<lparr>mass_density = [3, 0], hist_bin_edges = [0, 9, 18]\<rparr>\<rparr>"

definition demo_files :: files where
  "demo_files =
     [[''box.pbc''] \<mapsto> ''18.0'', [''topo.mol2''] \<mapsto> ''mol2'', [''traj.xyz''] \<mapsto> ''xyz'']"

definition demo_collab :: collab where
  "demo_collab =
     \<lparr>parse_topology =
        (\<lambda>t. if t = ''mol2'' then Inr (atoms demo_universe) else Inl ValueError),
      parse_trajectory =
        (\<lambda>n s. if n = 3 \<and> s = ''xyz'' then Inr (trajectory demo_universe)
               else Inl ValueError),
      float_of = (\<lambda>s. if s = ''18.0'' then Inr (Fin 18) else Inl ValueError),
      rdf_run = (\<lambda>u cfg. Inr \<lparr>bins = [], rdf = []\<rparr>),
      ldens_run = (\<lambda>u g b. Inr demo_ldens),
      msd_run = (\<lambda>u e t f. Inr msd3),
      diel_run = (\<lambda>u g t w. Inr 78),
      regress = linregress (Inr \<lparr>slope = NaN, intercept = NaN\<rparr>),
      exp_csv = Inr \<lparr>r_col = [], g_OO_col = []\<rparr>\<rparr>"

definition demo_visit :: interaction where
  "demo_visit =
     \<lparr>xyz_found = [[''traj.xyz'']], topo_found = [[''topo.mol2'']], pbc_found = [[''box.pbc'']],
      xyz_chosen = 0, topo_chosen = 0, pbc_chosen = 0,
      rdf_check = False, rdf_button = False,
      dens_check = False, dens_button = False,
      msd_check = False, msd_button = False,
      diel_check = False, diel_button = False,
      fit_window = None\<rparr>"

definition demo_selection :: selection where
  "demo_selection =
     \<lparr>xyz_selection = Some [''traj.xyz''], topo_selection = Some [''topo.mol2''],
      pbc_selection = Some [''box.pbc'']\<rparr>"

subsection \<open>The page as a sequence of sections\<close>

text \<open>The section of a metric, and a run of the sections of a list of metrics that
  stops at the first error, as \<open>page\<close> runs its four sections.\<close>

fun section_of ::
  "metric \<Rightarrow> collab \<Rightarrow> files \<Rightarrow> selection \<Rightarrow> interaction \<Rightarrow> page_state \<Rightarrow> outcome" where
  "section_of Rdf = rdf_section"
| "section_of Density = dens_section"
| "section_of Msd = msd_section"
| "section_of Dielectric = diel_section"

fun run_sections ::
  "metric list \<Rightarrow> collab \<Rightarrow> files \<Rightarrow> selection \<Rightarrow> interaction \<Rightarrow> page_state \<Rightarrow> outcome" where
  "run_sections [] c fs sel i s = (None, s)"
| "run_sections (m # ms) c fs sel i s =
     and_then (section_of m c fs sel i s) (run_sections ms c fs sel i)"

subsection \<open>The lines on the page\<close>

text \<open>The lines that a run has written with \<^verbatim>\<open>st.write\<close>, in their order, without the
  charts.\<close>

definition written :: "page_state \<Rightarrow> element list" where
  "written s = filter (\<lambda>el. case el of Write p \<Rightarrow> True | PlotlyChart g \<Rightarrow> False) (rendered s)"

section \<open>Properties\<close>

subsection \<open>Arrays, indices and the slider\<close>

lemma np_get_lag0: "np_get (lagtimes_of n) 0 = (if n = 0 then Inl IndexError else Inr 0)"
  by (auto simp: np_get_def lagtimes_of_def nth_append)

lemma np_get_lag_last:
  "np_get (lagtimes_of n) (- 1) =
     (if n = 0 then Inl IndexError else Inr (int (n - 1) * timestep))"
  by (auto simp: np_get_def lagtimes_of_def nat_diff_distrib' simp del: upt_Suc)

lemma np_get_inside: "0 \<le> i \<Longrightarrow> i < int (length a) \<Longrightarrow> np_get a i = Inr (a ! nat i)"
  by (simp add: np_get_def)

lemma py_int_div:
  "0 \<le> t \<Longrightarrow> py_int (real_of_int t / real_of_int timestep) = t div timestep"
  using floor_divide_of_int_eq[of t 100, where ?'a = real]
  by (simp add: py_int_def timestep_def)

lemma slider_range:
  "slider lo hi (lo, hi) chosen = Inr (t0, t1) \<Longrightarrow>
   lo < hi \<and> lo \<le> t0 \<and> t0 \<le> t1 \<and> t1 \<le> hi"
  by (auto simp: slider_def split: option.splits if_splits prod.splits)

lemma slider_inside:
  "lo < hi \<Longrightarrow> lo \<le> a \<Longrightarrow> a \<le> b \<Longrightarrow> b \<le> hi \<Longrightarrow>
   slider lo hi (lo, hi) (Some (a, b)) = Inr (a, b)"
  by (simp add: slider_def)

lemma slider_default: "lo < hi \<Longrightarrow> slider lo hi (lo, hi) None = Inr (lo, hi)"
  by (simp add: slider_def)

lemma slider_total:
  "lo < hi \<Longrightarrow> \<exists>t0 t1. slider lo hi (lo, hi) chosen = Inr (t0, t1)"
  by (auto simp: slider_def split: option.splits)

lemma take_drop_nths:
  "i \<le> j \<Longrightarrow> j \<le> length a \<Longrightarrow> take (j - i) (drop i a) = map (\<lambda>k. a ! k) [i..<j]"
  by (rule nth_equalityI) auto

lemma slice_bound_inside: "0 \<le> i \<Longrightarrow> i \<le> int n \<Longrightarrow> slice_bound n i = nat i"
  unfolding slice_bound_def by auto

lemma py_slice_sub:
  assumes "0 \<le> i" "i \<le> j" "j \<le> int (length a)"
  shows "py_slice a i j = sub_series a i j"
proof -
  have "slice_bound (length a) i = nat i" "slice_bound (length a) j = nat j"
    using assms by (simp_all add: slice_bound_inside)
  moreover have "nat i \<le> nat j" "nat j \<le> length a"
    using assms by simp_all
  ultimately show ?thesis
    by (simp add: py_slice_def sub_series_def take_drop_nths)
qed

lemma frame_index_bounds:
  assumes "0 \<le> t" "t \<le> int (n - 1) * timestep" "0 < n"
  shows "0 \<le> t div timestep" "t div timestep \<le> int n - 1" "t div timestep < int n"
proof -
  show "0 \<le> t div timestep"
    using assms by (simp add: timestep_def pos_imp_zdiv_nonneg_iff)
  have "t div timestep \<le> (int (n - 1) * timestep) div timestep"
    using assms by (intro zdiv_mono1) (simp_all add: timestep_def)
  also have "\<dots> = int (n - 1)"
    by (simp add: timestep_def)
  finally show "t div timestep \<le> int n - 1"
    using assms by simp
  then show "t div timestep < int n"
    by simp
qed

lemma lagtimes_slice:
  assumes "0 \<le> i" "i \<le> j" "j \<le> int n"
  shows "map real_of_int (py_slice (lagtimes_of n) i j) =
         map (\<lambda>k. real_of_int (int k * timestep)) [nat i..<nat j]"
proof -
  have "py_slice (lagtimes_of n) i j = map (\<lambda>k. lagtimes_of n ! k) [nat i..<nat j]"
    using assms py_slice_sub[of i j "lagtimes_of n"]
    by (simp add: lagtimes_of_def sub_series_def)
  moreover have "k \<in> set [nat i..<nat j] \<Longrightarrow> lagtimes_of n ! k = int k * timestep" for k
    using assms by (auto simp: lagtimes_of_def)
  ultimately show ?thesis
    by (simp add: comp_def cong: map_cong)
qed

text \<open>The fit of a series that has one value per frame: the regression receives the
  lag times and the values of the frames from the first index up to, and without, the
  second.\<close>

lemma msd_fit_eq:
  assumes n: "0 < n_frames M" and len: "length (timeseries M) = n_frames M"
    and sl: "slider 0 (int (n_frames M - 1) * timestep)
               (0, int (n_frames M - 1) * timestep) chosen = Inr (t0, t1)"
  shows "map_sum id fit_summary (msd_fit lr M chosen) =
         map_sum id
           (\<lambda>m. (t0, t1, t0 div timestep, t1 div timestep, m,
                 np_over (np_times (slope m) 1) (real (2 * dim_fac M))))
           (lr (map (\<lambda>k. real_of_int (int k * timestep))
                  [nat (t0 div timestep)..<nat (t1 div timestep)])
               (sub_series (timeseries M) (t0 div timestep) (t1 div timestep)))"
proof -
  have r: "0 \<le> t0" "t0 \<le> t1" "t1 \<le> int (n_frames M - 1) * timestep"
    using slider_range[OF sl] by simp_all
  have b0: "0 \<le> t0 div timestep" "t0 div timestep < int (n_frames M)"
    using frame_index_bounds[of t0 "n_frames M"] r n by simp_all
  have b1: "0 \<le> t1 div timestep" "t1 div timestep < int (n_frames M)"
    using frame_index_bounds[of t1 "n_frames M"] r n by simp_all
  have le: "t0 div timestep \<le> t1 div timestep"
    using r by (intro zdiv_mono1) (simp_all add: timestep_def)
  have i0: "py_int (real_of_int t0 / real_of_int timestep) = t0 div timestep"
    and i1: "py_int (real_of_int t1 / real_of_int timestep) = t1 div timestep"
    using r by (simp_all add: py_int_div)
  have g0: "np_get (timeseries M) (t0 div timestep) = Inr (timeseries M ! nat (t0 div timestep))"
    and g1: "np_get (timeseries M) (t1 div timestep) = Inr (timeseries M ! nat (t1 div timestep))"
    using b0 b1 len by (simp_all add: np_get_inside)
  have sx: "map real_of_int
              (py_slice (lagtimes_of (n_frames M)) (t0 div timestep) (t1 div timestep)) =
            map (\<lambda>k. real_of_int (int k * timestep))
              [nat (t0 div timestep)..<nat (t1 div timestep)]"
    using b0 b1 le by (intro lagtimes_slice) simp_all
  have sy: "py_slice (timeseries M) (t0 div timestep) (t1 div timestep) =
            sub_series (timeseries M) (t0 div timestep) (t1 div timestep)"
    using b0 b1 le len by (intro py_slice_sub) simp_all
  have sl': "slider 0 ((int (n_frames M) - 1) * timestep)
               (0, (int (n_frames M) - 1) * timestep) chosen = Inr (t0, t1)"
    using sl n by (simp add: of_nat_diff)
  show ?thesis
    using n
    by (simp add: msd_fit_def Let_def np_get_lag0 np_get_lag_last sl' i0 i1 g0 g1 sx sy
        fit_summary_def split: sum.splits)
qed

subsection \<open>Frame indices of the fit window\<close>

text \<open>Claim C10. For every slider selection \<open>(t0, t1)\<close> with
  \<open>lagtimes[0] \<le> t0 \<le> t1 \<le> lagtimes[-1]\<close>, on a series that has one value per frame:
  the slider gives the selection (on a series of one frame the two bounds are equal and
  the framework refuses the slider); the indices \<open>t0 // timestep\<close> and
  \<open>t1 // timestep\<close> of the plot range, and \<open>start_index\<close> and \<open>end_index\<close> (which equal
  them), lie in \<open>[0, n_frames - 1]\<close>; the two reads of the series are in bounds; the two
  slices are not cut; and the fit raises no error but one that the regression raises
  and, on a series of one frame, the refusal of the slider.\<close>

theorem fit_indices_in_bounds:
  assumes len: "length (timeseries M) = n_frames M"
    and lo: "np_get (lagtimes_of (n_frames M)) 0 = Inr lo"
    and hi: "np_get (lagtimes_of (n_frames M)) (- 1) = Inr hi"
    and sel: "lo \<le> t0" "t0 \<le> t1" "t1 \<le> hi"
  shows "slider lo hi (lo, hi) (Some (t0, t1)) =
           (if lo < hi then Inr (t0, t1) else Inl StreamlitAPIException)
    \<and> 0 \<le> t0 div timestep \<and> t0 div timestep \<le> int (n_frames M) - 1
    \<and> 0 \<le> t1 div timestep \<and> t1 div timestep \<le> int (n_frames M) - 1
    \<and> py_int (real_of_int t0 / real_of_int timestep) = t0 div timestep
    \<and> py_int (real_of_int t1 / real_of_int timestep) = t1 div timestep
    \<and> np_get (timeseries M) (t0 div timestep) = Inr (timeseries M ! nat (t0 div timestep))
    \<and> np_get (timeseries M) (t1 div timestep) = Inr (timeseries M ! nat (t1 div timestep))
    \<and> py_slice (timeseries M) (t0 div timestep) (t1 div timestep) =
        sub_series (timeseries M) (t0 div timestep) (t1 div timestep)
    \<and> py_slice (lagtimes_of (n_frames M)) (t0 div timestep) (t1 div timestep) =
        sub_series (lagtimes_of (n_frames M)) (t0 div timestep) (t1 div timestep)
    \<and> (\<forall>e. msd_fit lr M (Some (t0, t1)) = Inl e \<longrightarrow>
           (lo = hi \<and> e = StreamlitAPIException)
           \<or> lr (map real_of_int (sub_series (lagtimes_of (n_frames M)) (t0 div timestep) (t1 div timestep)))
              (sub_series (timeseries M) (t0 div timestep) (t1 div timestep)) = Inl e)"
proof -
  have n: "0 < n_frames M"
    using lo by (auto simp: np_get_lag0 split: if_splits)
  have lo0: "lo = 0" and hi0: "hi = int (n_frames M - 1) * timestep"
    using lo hi n by (simp_all add: np_get_lag0 np_get_lag_last)
  have sl: "slider lo hi (lo, hi) (Some (t0, t1)) =
              (if lo < hi then Inr (t0, t1) else Inl StreamlitAPIException)"
    using sel by (auto simp: slider_def)
  have r: "0 \<le> t0" "0 \<le> t1" "t0 \<le> int (n_frames M - 1) * timestep"
    "t1 \<le> int (n_frames M - 1) * timestep"
    using sel lo0 hi0 by simp_all
  have b0: "0 \<le> t0 div timestep" "t0 div timestep \<le> int (n_frames M) - 1"
    "t0 div timestep < int (n_frames M)"
    using frame_index_bounds[of t0 "n_frames M"] r n by simp_all
  have b1: "0 \<le> t1 div timestep" "t1 div timestep \<le> int (n_frames M) - 1"
    "t1 div timestep < int (n_frames M)"
    using frame_index_bounds[of t1 "n_frames M"] r n by simp_all
  have le: "t0 div timestep \<le> t1 div timestep"
    using sel by (intro zdiv_mono1) (simp_all add: timestep_def)
  have sy: "py_slice (timeseries M) (t0 div timestep) (t1 div timestep) =
        sub_series (timeseries M) (t0 div timestep) (t1 div timestep)"
    using b0 b1 le len by (intro py_slice_sub) simp_all
  have sx: "py_slice (lagtimes_of (n_frames M)) (t0 div timestep) (t1 div timestep) =
        sub_series (lagtimes_of (n_frames M)) (t0 div timestep) (t1 div timestep)"
    using b0 b1 le by (intro py_slice_sub) (simp_all add: lagtimes_of_def)
  have xs: "map real_of_int (sub_series (lagtimes_of (n_frames M)) (t0 div timestep) (t1 div timestep)) =
        map (\<lambda>k. real_of_int (int k * timestep)) [nat (t0 div timestep)..<nat (t1 div timestep)]"
    using lagtimes_slice[of "t0 div timestep" "t1 div timestep" "n_frames M"] b0 b1 le sx
    by simp
  have err: "(lo = hi \<and> e = StreamlitAPIException)
           \<or> lr (map real_of_int (sub_series (lagtimes_of (n_frames M)) (t0 div timestep) (t1 div timestep)))
              (sub_series (timeseries M) (t0 div timestep) (t1 div timestep)) = Inl e"
    if e: "msd_fit lr M (Some (t0, t1)) = Inl e" for e
  proof (cases "lo < hi")
    case True
    have "map_sum id fit_summary (msd_fit lr M (Some (t0, t1))) =
         map_sum id
           (\<lambda>m. (t0, t1, t0 div timestep, t1 div timestep, m,
                 np_over (np_times (slope m) 1) (real (2 * dim_fac M))))
           (lr (map (\<lambda>k. real_of_int (int k * timestep))
                  [nat (t0 div timestep)..<nat (t1 div timestep)])
               (sub_series (timeseries M) (t0 div timestep) (t1 div timestep)))"
      using msd_fit_eq[OF n len slider_inside[OF True sel, unfolded lo0 hi0], of lr] .
    with e show ?thesis
      unfolding xs by (auto simp: map_sum_def split: sum.splits)
  next
    case False
    then have "lo = hi" using sel by simp
    moreover have "msd_fit lr M (Some (t0, t1)) = Inl StreamlitAPIException"
      using False sl by (simp add: msd_fit_def Let_def lo hi)
    ultimately show ?thesis using e by simp
  qed
  have bounds: "0 \<le> t0 div timestep \<and> t0 div timestep \<le> int (n_frames M) - 1
    \<and> 0 \<le> t1 div timestep \<and> t1 div timestep \<le> int (n_frames M) - 1
    \<and> py_int (real_of_int t0 / real_of_int timestep) = t0 div timestep
    \<and> py_int (real_of_int t1 / real_of_int timestep) = t1 div timestep
    \<and> np_get (timeseries M) (t0 div timestep) = Inr (timeseries M ! nat (t0 div timestep))
    \<and> np_get (timeseries M) (t1 div timestep) = Inr (timeseries M ! nat (t1 div timestep))"
    using b0 b1 r len by (simp add: py_int_div np_get_inside)
  from sl bounds sy sx err show ?thesis
    by (intro conjI allI impI) (simp_all only:)
qed

theorem fit_indices_in_bounds_witness:
  "length (timeseries msd3) = n_frames msd3
   \<and> np_get (lagtimes_of (n_frames msd3)) 0 = Inr 0
   \<and> np_get (lagtimes_of (n_frames msd3)) (- 1) = Inr 200
   \<and> (0::int) \<le> 100 \<and> (100::int) \<le> 200 \<and> (200::int) \<le> 200
   \<and> slider 0 200 (0, 200) (Some (100, 200)) = Inr (100, 200)
   \<and> (100::int) div timestep = 1 \<and> (200::int) div timestep = 2
   \<and> np_get (timeseries msd3) (100 div timestep) = Inr 6
   \<and> np_get (timeseries msd3) (200 div timestep) = Inr 12
   \<and> py_slice (timeseries msd3) (100 div timestep) (200 div timestep) = [6]"
  using fit_indices_in_bounds[of msd3 0 200 100 200 "linregress (Inl ValueError)"]
  by (simp add: msd3_def np_get_def lagtimes_of_def timestep_def sub_series_def upt_rec)

subsection \<open>The regression routine computes the least-squares line\<close>

lemma ssxm_zero_iff:
  assumes "a \<noteq> []"
  shows "mean (map (\<lambda>v. (v - m) * (v - m)) a) = 0 \<longleftrightarrow> (\<forall>v \<in> set a. v = m)"
proof -
  have "sum_list (map (\<lambda>v. (v - m) * (v - m)) a) = 0 \<longleftrightarrow>
        (\<forall>q \<in> set (map (\<lambda>v. (v - m) * (v - m)) a). q = 0)"
    by (rule sum_list_nonneg_eq_0_iff) auto
  then show ?thesis using assms by (auto simp: mean_def)
qed

lemma linregress_single: "linregress e [v] [w] = Inr \<lparr>slope = NaN, intercept = NaN\<rparr>"
  by (simp add: linregress_def mean_def np_over_def)

lemma linregress_empty: "linregress e [] b = e"
  by (simp add: linregress_def)

lemma Max_Min_distinct:
  assumes "v \<in> set a" "w \<in> set a" "v \<noteq> (w::real)"
  shows "Max (set a) \<noteq> Min (set a)"
proof
  assume eq: "Max (set a) = Min (set a)"
  have "Min (set a) \<le> v" "v \<le> Max (set a)" "Min (set a) \<le> w" "w \<le> Max (set a)"
    using assms by simp_all
  with eq have "v = w" by linarith
  with assms show False by simp
qed

lemma linregress_value:
  assumes len: "length a = length b" and v: "v \<in> set a" and w: "w \<in> set a" and ne: "v \<noteq> w"
  shows "linregress e a b =
     Inr \<lparr>slope = Fin (mean (map2 (\<lambda>v w. (v - mean a) * (w - mean b)) a b) /
                        mean (map (\<lambda>v. (v - mean a) * (v - mean a)) a)),
          intercept = Fin (mean b - mean (map2 (\<lambda>v w. (v - mean a) * (w - mean b)) a b) /
                        mean (map (\<lambda>v. (v - mean a) * (v - mean a)) a) * mean a)\<rparr>"
proof -
  have nonempty: "a \<noteq> []" "b \<noteq> []" using v len by auto
  have mm: "Max (set a) \<noteq> Min (set a)" using Max_Min_distinct[OF v w ne] .
  have "\<not> (\<forall>q \<in> set a. q = mean a)" using v w ne by metis
  then have nz: "mean (map (\<lambda>v. (v - mean a) * (v - mean a)) a) \<noteq> 0"
    using ssxm_zero_iff[OF nonempty(1)] by simp
  show ?thesis
    using nonempty mm nz len by (simp add: linregress_def Let_def np_over_def)
qed

text \<open>Sums of deviations, in raw sums.\<close>

lemma sum_dev_prod:
  "length a = length b \<Longrightarrow>
   sum_list (map2 (\<lambda>v w. (v - p) * (w - q)) a b) =
   sum_list (map2 (\<lambda>v w. v * w) a b) - p * sum_list b - q * sum_list a + real (length a) * p * q"
  by (induction a b rule: list_induct2) (simp_all add: algebra_simps)

lemma sum_dev_sq:
  "sum_list (map (\<lambda>v. (v - p) * (v - p)) a) =
   sum_list (map (\<lambda>v. v * v) a) - 2 * p * sum_list a + real (length a) * p * p"
  by (induction a) (simp_all add: algebra_simps)

lemma sse_split:
  "length a = length b \<Longrightarrow>
   sse a b c d = sse a b c0 d0
     + 2 * (c0 - c) * sum_list (map2 (\<lambda>v w. w - (c0 + d0 * v)) a b)
     + 2 * (d0 - d) * sum_list (map2 (\<lambda>v w. (w - (c0 + d0 * v)) * v) a b)
     + sum_list (map (\<lambda>v. ((c0 - c) + (d0 - d) * v) * ((c0 - c) + (d0 - d) * v)) a)"
  unfolding sse_def
  by (induction a b rule: list_induct2) (simp_all add: algebra_simps)

lemma resid_sum:
  "length a = length b \<Longrightarrow>
   sum_list (map2 (\<lambda>v w. w - (c0 + d0 * v)) a b) =
   sum_list b - real (length a) * c0 - d0 * sum_list a"
  by (induction a b rule: list_induct2) (simp_all add: algebra_simps)

lemma resid_x_sum:
  "length a = length b \<Longrightarrow>
   sum_list (map2 (\<lambda>v w. (w - (c0 + d0 * v)) * v) a b) =
   sum_list (map2 (\<lambda>v w. v * w) a b) - c0 * sum_list a - d0 * sum_list (map (\<lambda>v. v * v) a)"
  for c0 :: real
proof (induction a b rule: list_induct2)
  case Nil
  show ?case by simp
next
  case (Cons v a w b)
  then show ?case by (simp add: algebra_simps)
qed


lemma ssxm_raw:
  assumes "a \<noteq> []"
  shows "mean (map (\<lambda>v. (v - mean a) * (v - mean a)) a) =
         (real (length a) * sum_list (map (\<lambda>v. v * v) a) - sum_list a * sum_list a) /
         (real (length a) * real (length a))"
proof -
  have n: "real (length a) \<noteq> 0" using assms by simp
  show ?thesis
    unfolding mean_def length_map sum_dev_sq using n by (simp add: field_simps)
qed

lemma ssxym_raw:
  assumes "a \<noteq> []" "length a = length b"
  shows "mean (map2 (\<lambda>v w. (v - mean a) * (w - mean b)) a b) =
         (real (length a) * sum_list (map2 (\<lambda>v w. v * w) a b) - sum_list a * sum_list b) /
         (real (length a) * real (length a))"
proof -
  define n where "n = real (length a)"
  define Sa where "Sa = sum_list a"
  define Sb where "Sb = sum_list b"
  define Sab where "Sab = sum_list (map2 (\<lambda>v w. v * w) a b)"
  have n: "n \<noteq> 0" using assms(1) by (simp add: n_def)
  have ma: "mean a = Sa / n" and mb: "mean b = Sb / n"
    using assms(2) by (simp_all add: mean_def n_def Sa_def Sb_def)
  have "mean (map2 (\<lambda>v w. (v - mean a) * (w - mean b)) a b) =
        sum_list (map2 (\<lambda>v w. (v - mean a) * (w - mean b)) a b) / n"
    using assms(2) by (simp add: mean_def n_def)
  also have "\<dots> = (Sab - (Sa / n) * Sb - (Sb / n) * Sa + n * (Sa / n) * (Sb / n)) / n"
    unfolding sum_dev_prod[OF assms(2)] ma mb by (simp add: n_def Sa_def Sb_def Sab_def)
  also have "\<dots> = (n * Sab - Sa * Sb) / (n * n)"
    using n by (simp add: field_simps)
  finally show ?thesis by (simp add: n_def Sa_def Sb_def Sab_def)
qed

lemma linregress_ols:
  assumes len: "length a = length b" and v: "v \<in> set a" and w: "w \<in> set a" and ne: "v \<noteq> w"
  shows "linregress e a b = Inr \<lparr>slope = Fin (ols_slope a b), intercept = Fin (ols_intercept a b)\<rparr>"
proof -
  have nonempty: "a \<noteq> []" using v by auto
  have n: "real (length a) \<noteq> 0" using nonempty by simp
  have s: "mean (map2 (\<lambda>v w. (v - mean a) * (w - mean b)) a b) /
           mean (map (\<lambda>v. (v - mean a) * (v - mean a)) a) = ols_slope a b"
    unfolding ssxm_raw[OF nonempty] ssxym_raw[OF nonempty len] ols_slope_def using n by simp
  have i: "mean b - ols_slope a b * mean a = ols_intercept a b"
    using n len by (simp add: ols_intercept_def mean_def field_simps)
  show ?thesis
    unfolding linregress_value[OF len v w ne] s i ..
qed

lemma ols_denominator:
  assumes v: "v \<in> set a" and w: "w \<in> set a" and ne: "v \<noteq> w"
  shows "real (length a) * sum_list (map (\<lambda>v. v * v) a) - sum_list a * sum_list a \<noteq> 0"
proof -
  have nonempty: "a \<noteq> []" using v by auto
  have "\<not> (\<forall>q \<in> set a. q = mean a)" using v w ne by metis
  then have "mean (map (\<lambda>v. (v - mean a) * (v - mean a)) a) \<noteq> 0"
    using ssxm_zero_iff[OF nonempty] by simp
  then show ?thesis unfolding ssxm_raw[OF nonempty] by auto
qed

lemma ols_least_squares:
  assumes len: "length a = length b" and v: "v \<in> set a" and w: "w \<in> set a" and ne: "v \<noteq> w"
  shows "sse a b (ols_intercept a b) (ols_slope a b) \<le> sse a b c d"
proof -
  define n where "n = real (length a)"
  define Sa where "Sa = sum_list a"
  define Sb where "Sb = sum_list b"
  define Sab where "Sab = sum_list (map2 (\<lambda>v w. v * w) a b)"
  define Saa where "Saa = sum_list (map (\<lambda>v. v * v) a)"
  define d0 where "d0 = ols_slope a b"
  define c0 where "c0 = ols_intercept a b"
  have n: "n \<noteq> 0" using v by (auto simp: n_def)
  have den: "n * Saa - Sa * Sa \<noteq> 0"
    using ols_denominator[OF v w ne] by (simp add: n_def Saa_def Sa_def)
  have d0: "d0 * (n * Saa - Sa * Sa) = n * Sab - Sa * Sb"
    using den by (simp add: d0_def ols_slope_def n_def Saa_def Sa_def Sab_def Sb_def)
  have c0: "n * c0 = Sb - d0 * Sa"
    using n by (simp add: c0_def d0_def ols_intercept_def n_def Sb_def Sa_def)
  have r1: "sum_list (map2 (\<lambda>v w. w - (c0 + d0 * v)) a b) = 0"
    unfolding resid_sum[OF len] using c0 by (simp add: n_def Sb_def Sa_def)
  have "n * (Sab - c0 * Sa - d0 * Saa) = n * Sab - (n * c0) * Sa - d0 * (n * Saa)"
    by (simp add: algebra_simps)
  also have "\<dots> = n * Sab - (Sb - d0 * Sa) * Sa - d0 * (n * Saa)"
    unfolding c0 ..
  also have "\<dots> = (n * Sab - Sa * Sb) - d0 * (n * Saa - Sa * Sa)"
    by (simp add: algebra_simps)
  also have "\<dots> = 0" using d0 by simp
  finally have "Sab - c0 * Sa - d0 * Saa = 0" using n by simp
  then have r2: "sum_list (map2 (\<lambda>v w. (w - (c0 + d0 * v)) * v) a b) = 0"
    unfolding resid_x_sum[OF len] by (simp add: Sab_def Sa_def Saa_def)
  have q: "0 \<le> sum_list (map (\<lambda>v. ((c0 - c) + (d0 - d) * v) * ((c0 - c) + (d0 - d) * v)) a)"
    by (rule sum_list_nonneg) auto
  have "sse a b c d = sse a b c0 d0 +
        sum_list (map (\<lambda>v. ((c0 - c) + (d0 - d) * v) * ((c0 - c) + (d0 - d) * v)) a)"
    using sse_split[OF len, of c d c0 d0] r1 r2 by simp
  with q show ?thesis by (simp add: c0_def d0_def)
qed

lemma sum_list_affine:
  "sum_list (map (\<lambda>v. s * v + c) a) = s * sum_list a + real (length a) * c"
  by (induction a) (simp_all add: algebra_simps)

lemma sum_list_prod_affine:
  "sum_list (map2 (\<lambda>v w. v * w) a (map (\<lambda>v. s * v + c) a)) =
   s * sum_list (map (\<lambda>v. v * v) a) + c * sum_list a" for s :: real
  by (induction a) (simp_all add: algebra_simps)

lemma ols_slope_linear:
  assumes v: "v \<in> set a" and w: "w \<in> set a" and ne: "v \<noteq> w"
  shows "ols_slope a (map (\<lambda>v. s * v + c) a) = s"
proof -
  have den: "real (length a) * sum_list (map (\<lambda>v. v * v) a) - sum_list a * sum_list a \<noteq> 0"
    using ols_denominator[OF v w ne] .
  have "real (length a) * sum_list (map2 (\<lambda>v w. v * w) a (map (\<lambda>v. s * v + c) a))
          - sum_list a * sum_list (map (\<lambda>v. s * v + c) a) =
        s * (real (length a) * sum_list (map (\<lambda>v. v * v) a) - sum_list a * sum_list a)"
    unfolding sum_list_affine sum_list_prod_affine by (simp add: algebra_simps)
  then show ?thesis
    unfolding ols_slope_def using den by simp
qed

subsection \<open>The fit window and the regression\<close>

text \<open>What the fit does on a series with one value per frame, whatever the user did with
  the slider.\<close>

lemma fit_inputs:
  assumes lo: "np_get (lagtimes_of (n_frames M)) 0 = Inr lo"
    and hi: "np_get (lagtimes_of (n_frames M)) (- 1) = Inr hi"
    and len: "length (timeseries M) = n_frames M"
    and w: "slider lo hi (lo, hi) chosen = Inr (t0, t1)"
  shows "0 < n_frames M" "lo = 0" "hi = int (n_frames M - 1) * timestep"
    "lo \<le> t0" "t0 \<le> t1" "t1 \<le> hi"
    "0 \<le> t0 div timestep" "t0 div timestep \<le> t1 div timestep" "t1 div timestep < int (n_frames M)"
    "map real_of_int (sub_series (lagtimes_of (n_frames M)) (t0 div timestep) (t1 div timestep)) =
       map (\<lambda>k. real_of_int (int k * timestep)) [nat (t0 div timestep)..<nat (t1 div timestep)]"
    "map_sum id fit_summary (msd_fit lr M chosen) =
       map_sum id
         (\<lambda>m. (t0, t1, t0 div timestep, t1 div timestep, m,
               np_over (np_times (slope m) 1) (real (2 * dim_fac M))))
         (lr (map real_of_int
                (sub_series (lagtimes_of (n_frames M)) (t0 div timestep) (t1 div timestep)))
             (sub_series (timeseries M) (t0 div timestep) (t1 div timestep)))"
proof -
  show n: "0 < n_frames M"
    using lo by (auto simp: np_get_lag0 split: if_splits)
  show lo0: "lo = 0" and hi0: "hi = int (n_frames M - 1) * timestep"
    using lo hi n by (simp_all add: np_get_lag0 np_get_lag_last)
  from slider_range[OF w] show r: "lo \<le> t0" "t0 \<le> t1" "t1 \<le> hi" by simp_all
  show b0: "0 \<le> t0 div timestep"
    using frame_index_bounds(1)[of t0 "n_frames M"] r lo0 hi0 n by simp
  show le: "t0 div timestep \<le> t1 div timestep"
    using r by (intro zdiv_mono1) (simp_all add: timestep_def)
  show b1: "t1 div timestep < int (n_frames M)"
    using frame_index_bounds(3)[of t1 "n_frames M"] r lo0 hi0 n by simp
  have sx: "py_slice (lagtimes_of (n_frames M)) (t0 div timestep) (t1 div timestep) =
        sub_series (lagtimes_of (n_frames M)) (t0 div timestep) (t1 div timestep)"
    using b0 b1 le by (intro py_slice_sub) (simp_all add: lagtimes_of_def)
  show xs: "map real_of_int (sub_series (lagtimes_of (n_frames M)) (t0 div timestep) (t1 div timestep)) =
        map (\<lambda>k. real_of_int (int k * timestep)) [nat (t0 div timestep)..<nat (t1 div timestep)]"
    using lagtimes_slice[of "t0 div timestep" "t1 div timestep" "n_frames M"] b0 b1 le sx
    by simp
  show "map_sum id fit_summary (msd_fit lr M chosen) =
       map_sum id
         (\<lambda>m. (t0, t1, t0 div timestep, t1 div timestep, m,
               np_over (np_times (slope m) 1) (real (2 * dim_fac M))))
         (lr (map real_of_int
                (sub_series (lagtimes_of (n_frames M)) (t0 div timestep) (t1 div timestep)))
             (sub_series (timeseries M) (t0 div timestep) (t1 div timestep)))"
    unfolding xs using msd_fit_eq[OF n len, of chosen t0 t1 lr] w lo0 hi0 by simp
qed

lemma window_fit_eq:
  assumes "np_get (lagtimes_of (n_frames M)) 0 = Inr lo"
    and "np_get (lagtimes_of (n_frames M)) (- 1) = Inr hi"
    and "length (timeseries M) = n_frames M"
    and "slider lo hi (lo, hi) chosen = Inr (t0, t1)"
  shows "map_sum id fit_summary (msd_fit lr M chosen) = window_fit lr M t0 t1"
  unfolding window_fit_def using fit_inputs(11)[OF assms] .

text \<open>Claim C5. For every fit window that the user selects on the slider, that is every
  pair \<open>(a, b)\<close> with \<open>lagtimes[0] \<le> a \<le> b \<le> lagtimes[-1]\<close>, on a series with one value
  per frame and at least two frames (so that the slider has a range): the slider gives
  the pair, and the fit is the fit of the specification on the window \<open>(a, b)\<close>, with the
  start and the end index \<open>a div 100\<close> and \<open>b div 100\<close> and the regression on the lag
  times and the values of the frames from the start index up to, and without, the end
  index. When the user has not moved the slider, the window is the full range
  \<open>(lagtimes[0], lagtimes[-1])\<close>. Whatever the user did, the window lies in the range
  and the fit is the fit of the specification on it.\<close>

theorem fit_window_regression:
  assumes lo: "np_get (lagtimes_of (n_frames M)) 0 = Inr lo"
    and hi: "np_get (lagtimes_of (n_frames M)) (- 1) = Inr hi"
    and len: "length (timeseries M) = n_frames M"
    and two: "lo < hi"
    and sel: "lo \<le> a" "a \<le> b" "b \<le> hi"
  shows "slider lo hi (lo, hi) (Some (a, b)) = Inr (a, b)
    \<and> map_sum id fit_summary (msd_fit lr M (Some (a, b))) = window_fit lr M a b
    \<and> slider lo hi (lo, hi) None = Inr (lo, hi)
    \<and> map_sum id fit_summary (msd_fit lr M None) = window_fit lr M lo hi
    \<and> (\<forall>chosen. \<exists>t0 t1. slider lo hi (lo, hi) chosen = Inr (t0, t1)
          \<and> lo \<le> t0 \<and> t0 \<le> t1 \<and> t1 \<le> hi
          \<and> map_sum id fit_summary (msd_fit lr M chosen) = window_fit lr M t0 t1)"
proof -
  note s1 = slider_inside[OF two sel]
  note s2 = slider_default[OF two]
  have any: "\<exists>t0 t1. slider lo hi (lo, hi) chosen = Inr (t0, t1)
          \<and> lo \<le> t0 \<and> t0 \<le> t1 \<and> t1 \<le> hi
          \<and> map_sum id fit_summary (msd_fit lr M chosen) = window_fit lr M t0 t1" for chosen
  proof -
    obtain t0 t1 where w: "slider lo hi (lo, hi) chosen = Inr (t0, t1)"
      using slider_total[OF two] by blast
    from w slider_range[OF w] window_fit_eq[OF lo hi len w] show ?thesis by blast
  qed
  from s1 window_fit_eq[OF lo hi len s1] s2 window_fit_eq[OF lo hi len s2] any
  show ?thesis by (intro conjI allI) (simp_all only:)
qed

theorem fit_window_regression_witness:
  "np_get (lagtimes_of (n_frames msd5)) 0 = Inr 0
   \<and> np_get (lagtimes_of (n_frames msd5)) (- 1) = Inr 400
   \<and> length (timeseries msd5) = n_frames msd5
   \<and> (0::int) < 400 \<and> (0::int) \<le> 100 \<and> (100::int) \<le> 300 \<and> (300::int) \<le> 400
   \<and> slider 0 400 (0, 400) (Some (100, 300)) = Inr (100, 300)
   \<and> sub_series (lagtimes_of (n_frames msd5)) (100 div timestep) (300 div timestep) = [100, 200]
   \<and> sub_series (timeseries msd5) (100 div timestep) (300 div timestep) = [6, 12]
   \<and> map_sum id fit_summary (msd_fit (regress demo_collab) msd5 (Some (100, 300))) =
       map_sum id (\<lambda>m. (100, 300, 1, 3, m, np_over (np_times (slope m) 1) 6))
         (regress demo_collab [100, 200] [6, 12])
   \<and> map_sum id fit_summary (msd_fit (regress demo_collab) msd5 None) =
       map_sum id (\<lambda>m. (0, 400, 0, 4, m, np_over (np_times (slope m) 1) 6))
         (regress demo_collab [0, 100, 200, 300] [0, 6, 12, 18])"
  using fit_window_regression[of msd5 0 400 100 300 "regress demo_collab"]
  by (simp add: msd5_def np_get_def lagtimes_of_def timestep_def sub_series_def slider_def
      window_fit_def upt_rec)

subsection \<open>What the MSD section shows\<close>

lemma fit_model:
  assumes "map_sum id fit_summary r = map_sum id (\<lambda>m. (a, b, c, d, m, g m)) q"
  shows "map_sum id linear_model r = q" "map_sum id diffusivity r = map_sum id g q"
    "map_sum id (\<lambda>f. (slope (linear_model f), diffusivity f)) r = map_sum id (\<lambda>m. (slope m, g m)) q"
  using assms by (cases r; cases q; simp add: fit_summary_def)+

lemma wide_window_points:
  assumes "0 \<le> i" "i + 2 \<le> j"
  shows "real_of_int (int (nat i) * timestep) \<in>
           set (map (\<lambda>k. real_of_int (int k * timestep)) [nat i..<nat j])"
    "real_of_int (int (Suc (nat i)) * timestep) \<in>
           set (map (\<lambda>k. real_of_int (int k * timestep)) [nat i..<nat j])"
    "real_of_int (int (nat i) * timestep) \<noteq> real_of_int (int (Suc (nat i)) * timestep)"
proof -
  have "nat i \<in> set [nat i..<nat j]" "Suc (nat i) \<in> set [nat i..<nat j]"
    using assms by auto
  then show "real_of_int (int (nat i) * timestep) \<in>
           set (map (\<lambda>k. real_of_int (int k * timestep)) [nat i..<nat j])"
    "real_of_int (int (Suc (nat i)) * timestep) \<in>
           set (map (\<lambda>k. real_of_int (int k * timestep)) [nat i..<nat j])"
    by (simp_all only: set_map image_eqI[where f = "\<lambda>k. real_of_int (int k * timestep)"])
  show "real_of_int (int (nat i) * timestep) \<noteq> real_of_int (int (Suc (nat i)) * timestep)"
    by (simp add: timestep_def)
qed

lemma written_simps:
  "written (called k s) = written s"
  "written (shown (Write p) s) = written s @ [Write p]"
  "written (shown (PlotlyChart g) s) = written s"
  by (simp_all add: written_def called_def shown_def)

lemma timestep_line_write: "\<exists>p. timestep_line = Write p"
  by (simp add: timestep_line_def)

lemma diffusivity_line_write: "\<exists>p. diffusivity_line D = Write p"
  by (simp add: diffusivity_line_def)

text \<open>The MSD section on a session that holds an MSD result, with the recalculate button
  not pressed.\<close>

lemma msd_section_cached:
  assumes "msd_check i" "create_u c fs sel = Inr u" "session_state s ''MSD'' = Some (MSD M)"
    "\<not> msd_button i"
  shows "msd_section c fs sel i s =
     (case msd_fit (regress c) M (fit_window i) of
        Inl e \<Rightarrow> (Some e, shown timestep_line (called (BuildSystem sel) s))
      | Inr f \<Rightarrow>
          (None,
           shown (PlotlyChart (msd_fig f))
             (shown (diffusivity_line (diffusivity f))
                (shown timestep_line (called (BuildSystem sel) s)))))"
  using assms
  by (simp add: msd_section_def cached_run_def and_then_def called_def lookup_def as_msd_def
      dom_def split: sum.splits)

lemma msd_section_written:
  assumes "msd_check i" "create_u c fs sel = Inr u" "session_state s ''MSD'' = Some (MSD M)"
    "\<not> msd_button i"
  shows "msd_fit (regress c) M (fit_window i) = Inl e \<Longrightarrow>
           fst (msd_section c fs sel i s) = Some e
           \<and> written (snd (msd_section c fs sel i s)) = written s @ [timestep_line]"
    and "map_sum id diffusivity (msd_fit (regress c) M (fit_window i)) = Inr D \<Longrightarrow>
           fst (msd_section c fs sel i s) = None
           \<and> written (snd (msd_section c fs sel i s)) =
               written s @ [timestep_line, diffusivity_line D]"
proof -
  obtain p q where p: "timestep_line = Write p" and q: "diffusivity_line D = Write q"
    using timestep_line_write diffusivity_line_write by blast
  show "msd_fit (regress c) M (fit_window i) = Inl e \<Longrightarrow>
           fst (msd_section c fs sel i s) = Some e
           \<and> written (snd (msd_section c fs sel i s)) = written s @ [timestep_line]"
    unfolding msd_section_cached[OF assms] by (simp add: p written_simps)
  show "map_sum id diffusivity (msd_fit (regress c) M (fit_window i)) = Inr D \<Longrightarrow>
           fst (msd_section c fs sel i s) = None
           \<and> written (snd (msd_section c fs sel i s)) =
               written s @ [timestep_line, diffusivity_line D]"
    unfolding msd_section_cached[OF assms]
    by (cases "msd_fit (regress c) M (fit_window i)") (auto simp: p q written_simps)
qed

subsection \<open>A fit window of one frame or none\<close>

text \<open>Claim C1 says that a fit window of one frame or none is reported as a "window too
  narrow" condition, instead of a crash or a silent NaN, and that no regression result
  is produced for it. The page has no such report. A session holds the MSD series of
  three frames. With the slider at \<open>(0, 100)\<close> the window has the one frame 0, the
  regression returns a result with the slope NaN, the diffusivity is NaN, the run
  completes, and the page writes the NaN as it writes a number. This is so whatever the
  regression routine does with an empty input.\<close>

theorem narrow_window_counterexample:
  "\<forall>e. map_sum id (\<lambda>f. (start_index f, end_index f, linear_model f, diffusivity f))
        (msd_fit (linregress e) msd3 (Some (0, 100))) =
          Inr (0, 1, \<lparr>slope = NaN, intercept = NaN\<rparr>, NaN)
   \<and> fst (page (demo_collab\<lparr>regress := linregress e\<rparr>) demo_files
          (demo_visit\<lparr>msd_check := True, fit_window := Some (0, 100)\<rparr>)
          (fresh [''MSD'' \<mapsto> MSD msd3])) = None
   \<and> written (snd (page (demo_collab\<lparr>regress := linregress e\<rparr>) demo_files
          (demo_visit\<lparr>msd_check := True, fit_window := Some (0, 100)\<rparr>)
          (fresh [''MSD'' \<mapsto> MSD msd3]))) =
       [Write [Lit ''Calculating MSD with a timestep of '', IntNum 100, Lit '' fs''],
        Write [Lit ''Self-diffusivity coefficient: '', SciE 3 NaN,
               Lit ('' m'' @ [CHR 0xC2, CHR 0xB2] @ ''/s'')]]"
  by (simp add: page_def rdf_section_def dens_section_def msd_section_def diel_section_def
      and_then_def cached_run_def lookup_def as_msd_def called_def shown_def written_def
      fresh_def demo_visit_def demo_collab_def demo_files_def demo_universe_def resolve_def
      selectbox_def create_u_def mda_Universe_def trajectory_file_def read_file_def
      timestep_line_def msd_fit_def msd3_def np_get_def lagtimes_of_def timestep_def slider_def
      py_int_def py_slice_def slice_bound_def linregress_def mean_def np_over_def np_times_def
      diffusivity_line_def Let_def upt_rec)

text \<open>Claim C1, amended. For every fit window with \<open>end_index - start_index \<le> 1\<close> that
  the slider gives (on a series with one value per frame, of at least two frames) the
  page makes no check and reports no "window too narrow" condition: the regression,
  whatever routine it is, receives the sub-series of the window, of one value or none,
  and its outcome, a result or an exception, is the outcome of the fit. With the
  regression of the library, on a session that holds the MSD series, a window of one
  frame gives the slope and the diffusivity NaN, the section completes and writes the
  diffusivity line with NaN; on a window of no frame the outcome is what the library
  does with an empty input.\<close>

theorem narrow_window_unchecked:
  assumes lo: "np_get (lagtimes_of (n_frames M)) 0 = Inr lo"
    and hi: "np_get (lagtimes_of (n_frames M)) (- 1) = Inr hi"
    and len: "length (timeseries M) = n_frames M"
    and w: "slider lo hi (lo, hi) (fit_window i) = Inr (t0, t1)"
    and narrow: "t1 div timestep - t0 div timestep \<le> 1"
    and enabled: "msd_check i" and built: "create_u c fs sel = Inr u"
    and held: "session_state s ''MSD'' = Some (MSD M)" "\<not> msd_button i"
    and lib: "regress c = linregress on_empty"
  shows "map_sum id linear_model (msd_fit lr M (fit_window i)) =
           lr (map real_of_int
                 (sub_series (lagtimes_of (n_frames M)) (t0 div timestep) (t1 div timestep)))
              (sub_series (timeseries M) (t0 div timestep) (t1 div timestep))
    \<and> length (sub_series (timeseries M) (t0 div timestep) (t1 div timestep)) \<le> 1
    \<and> (t1 div timestep = t0 div timestep \<longrightarrow>
          map_sum id linear_model (msd_fit (linregress on_empty) M (fit_window i)) = on_empty)
    \<and> (t1 div timestep = t0 div timestep + 1 \<longrightarrow>
          map_sum id (\<lambda>f. (linear_model f, diffusivity f))
            (msd_fit (linregress on_empty) M (fit_window i)) =
              Inr (\<lparr>slope = NaN, intercept = NaN\<rparr>, NaN)
          \<and> fst (msd_section c fs sel i s) = None
          \<and> written (snd (msd_section c fs sel i s)) =
              written s @ [timestep_line, diffusivity_line NaN])
    \<and> diffusivity_line NaN =
          Write [Lit ''Self-diffusivity coefficient: '', SciE 3 NaN,
                 Lit ('' m'' @ [CHR 0xC2, CHR 0xB2] @ ''/s'')]"
proof -
  note f = fit_inputs[OF lo hi len w]
  note sec = msd_section_written(2)[OF enabled built held, unfolded lib]
  have m: "map_sum id linear_model (msd_fit lr M (fit_window i)) =
           lr (map real_of_int
                 (sub_series (lagtimes_of (n_frames M)) (t0 div timestep) (t1 div timestep)))
              (sub_series (timeseries M) (t0 div timestep) (t1 div timestep))" for lr
    using fit_model(1)[OF f(11)] .
  have l: "length (sub_series (timeseries M) (t0 div timestep) (t1 div timestep)) \<le> 1"
    using narrow f(7,8) by (simp add: sub_series_def)
  have z: "map_sum id linear_model (msd_fit (linregress on_empty) M (fit_window i)) = on_empty"
    if "t1 div timestep = t0 div timestep"
    unfolding m using that by (simp add: sub_series_def linregress_empty)
  have o: "map_sum id (\<lambda>f. (linear_model f, diffusivity f))
            (msd_fit (linregress on_empty) M (fit_window i)) =
              Inr (\<lparr>slope = NaN, intercept = NaN\<rparr>, NaN)"
    and o': "map_sum id diffusivity (msd_fit (linregress on_empty) M (fit_window i)) = Inr NaN"
    if "t1 div timestep = t0 div timestep + 1"
  proof -
    have "nat (t1 div timestep) = Suc (nat (t0 div timestep))"
      using that f(7) by simp
    then have r: "linregress on_empty (map real_of_int
                 (sub_series (lagtimes_of (n_frames M)) (t0 div timestep) (t1 div timestep)))
              (sub_series (timeseries M) (t0 div timestep) (t1 div timestep)) =
              Inr \<lparr>slope = NaN, intercept = NaN\<rparr>"
      by (simp add: sub_series_def linregress_single)
    have lm: "map_sum id linear_model (msd_fit (linregress on_empty) M (fit_window i)) =
              Inr \<lparr>slope = NaN, intercept = NaN\<rparr>"
      unfolding m r ..
    show d: "map_sum id diffusivity (msd_fit (linregress on_empty) M (fit_window i)) = Inr NaN"
      unfolding fit_model(2)[OF f(11)] r by (simp add: np_times_def np_over_def)
    from lm d show "map_sum id (\<lambda>f. (linear_model f, diffusivity f))
            (msd_fit (linregress on_empty) M (fit_window i)) =
              Inr (\<lparr>slope = NaN, intercept = NaN\<rparr>, NaN)"
      by (cases "msd_fit (linregress on_empty) M (fit_window i)") simp_all
  qed
  have line: "diffusivity_line NaN =
          Write [Lit ''Self-diffusivity coefficient: '', SciE 3 NaN,
                 Lit ('' m'' @ [CHR 0xC2, CHR 0xB2] @ ''/s'')]"
    by (simp add: diffusivity_line_def np_times_def)
  have one: "fst (msd_section c fs sel i s) = None
          \<and> written (snd (msd_section c fs sel i s)) =
              written s @ [timestep_line, diffusivity_line NaN]"
    if "t1 div timestep = t0 div timestep + 1"
    using sec[OF o'[OF that]] .
  from m l z o one line show ?thesis
    by (intro conjI impI) (simp_all only:)
qed

theorem narrow_window_unchecked_witness:
  "np_get (lagtimes_of (n_frames msd3)) 0 = Inr 0
   \<and> np_get (lagtimes_of (n_frames msd3)) (- 1) = Inr 200
   \<and> length (timeseries msd3) = n_frames msd3
   \<and> slider 0 200 (0, 200)
        (fit_window (demo_visit\<lparr>msd_check := True, fit_window := Some (0, 100)\<rparr>)) = Inr (0, 100)
   \<and> (100::int) div timestep - 0 div timestep \<le> 1
   \<and> msd_check (demo_visit\<lparr>msd_check := True, fit_window := Some (0, 100)\<rparr>)
   \<and> create_u demo_collab demo_files demo_selection = Inr demo_universe
   \<and> session_state (fresh [''MSD'' \<mapsto> MSD msd3]) ''MSD'' = Some (MSD msd3)
   \<and> \<not> msd_button (demo_visit\<lparr>msd_check := True, fit_window := Some (0, 100)\<rparr>)
   \<and> regress demo_collab = linregress (Inr \<lparr>slope = NaN, intercept = NaN\<rparr>)
   \<and> (100::int) div timestep = 0 div timestep + 1
   \<and> sub_series (timeseries msd3) (0 div timestep) (100 div timestep) = [0]
   \<and> map_sum id (\<lambda>f. (linear_model f, diffusivity f))
        (msd_fit (linregress (Inr \<lparr>slope = NaN, intercept = NaN\<rparr>)) msd3 (Some (0, 100))) =
       Inr (\<lparr>slope = NaN, intercept = NaN\<rparr>, NaN)
   \<and> written (snd (msd_section demo_collab demo_files demo_selection
        (demo_visit\<lparr>msd_check := True, fit_window := Some (0, 100)\<rparr>)
        (fresh [''MSD'' \<mapsto> MSD msd3]))) = [timestep_line, diffusivity_line NaN]"
  using narrow_window_unchecked[of msd3 0 200 "demo_visit\<lparr>msd_check := True, fit_window := Some (0, 100)\<rparr>"
      0 100 demo_collab demo_files demo_selection demo_universe
      "fresh [''MSD'' \<mapsto> MSD msd3]" "Inr \<lparr>slope = NaN, intercept = NaN\<rparr>"
      "linregress (Inr \<lparr>slope = NaN, intercept = NaN\<rparr>)"]
  by (simp add: msd3_def np_get_def lagtimes_of_def timestep_def sub_series_def slider_def upt_rec
      demo_visit_def demo_collab_def demo_files_def demo_selection_def demo_universe_def
      create_u_def mda_Universe_def trajectory_file_def read_file_def fresh_def written_def)

subsection \<open>The diffusivity\<close>

text \<open>Claim C2. For every series with one value per frame and dimensionality factor 3,
  and every fit window of at least two frames: the slope of the fit is the slope of the
  least-squares line through the points of the window (lag time, value), that is of a
  line whose sum of squared residuals no line undercuts, and the diffusivity is that
  slope over \<open>2 * 3\<close>; when the series is linear in the lag time with slope \<open>r\<close>, the
  diffusivity is \<open>r / 6\<close>; and on a session that holds the series the section completes
  and writes the diffusivity line, which holds \<open>D * 10\<^sup>-\<^sup>5\<close> under the format
  \<^verbatim>\<open>.3E\<close>. Floats are real numbers here, so the equalities are exact.\<close>

theorem diffusivity_of_slope:
  fixes M :: msd_analysis and D :: real
  assumes lo: "np_get (lagtimes_of (n_frames M)) 0 = Inr lo"
    and hi: "np_get (lagtimes_of (n_frames M)) (- 1) = Inr hi"
    and len: "length (timeseries M) = n_frames M"
    and w: "slider lo hi (lo, hi) (fit_window i) = Inr (t0, t1)"
    and dim: "dim_fac M = 3"
    and wide: "2 \<le> t1 div timestep - t0 div timestep"
    and enabled: "msd_check i" and built: "create_u c fs sel = Inr u"
    and held: "session_state s ''MSD'' = Some (MSD M)" "\<not> msd_button i"
    and lib: "regress c = linregress on_empty"
  defines "X \<equiv> map real_of_int
                 (sub_series (lagtimes_of (n_frames M)) (t0 div timestep) (t1 div timestep))"
    and "Y \<equiv> sub_series (timeseries M) (t0 div timestep) (t1 div timestep)"
  shows "map_sum id (\<lambda>f. (slope (linear_model f), diffusivity f))
           (msd_fit (linregress on_empty) M (fit_window i))
           = Inr (Fin (ols_slope X Y), Fin (ols_slope X Y / (2 * 3)))
    \<and> (\<forall>p q. sse X Y (ols_intercept X Y) (ols_slope X Y) \<le> sse X Y p q)
    \<and> (\<forall>r p. (\<forall>k<n_frames M.
                  timeseries M ! k = r * real_of_int (lagtimes_of (n_frames M) ! k) + p) \<longrightarrow>
               map_sum id diffusivity (msd_fit (linregress on_empty) M (fit_window i)) =
                 Inr (Fin (r / 6)))
    \<and> fst (msd_section c fs sel i s) = None
    \<and> written (snd (msd_section c fs sel i s)) =
         written s @ [timestep_line, diffusivity_line (Fin (ols_slope X Y / (2 * 3)))]
    \<and> diffusivity_line (Fin D) =
         Write [Lit ''Self-diffusivity coefficient: '', SciE 3 (Fin (D * (1 / 10 ^ 5))),
                Lit ('' m'' @ [CHR 0xC2, CHR 0xB2] @ ''/s'')]"
proof -
  note f = fit_inputs[OF lo hi len w]
  have X: "X = map (\<lambda>k. real_of_int (int k * timestep)) [nat (t0 div timestep)..<nat (t1 div timestep)]"
    unfolding X_def using f(10) .
  have wd: "t0 div timestep + 2 \<le> t1 div timestep" using wide by simp
  note pts = wide_window_points[OF f(7) wd, folded X]
  have l: "length X = length Y"
    by (simp add: X Y_def sub_series_def)
  have reg: "linregress on_empty X Y =
               Inr \<lparr>slope = Fin (ols_slope X Y), intercept = Fin (ols_intercept X Y)\<rparr>"
    using linregress_ols[OF l pts] .
  have fit: "map_sum id (\<lambda>f. (slope (linear_model f), diffusivity f))
           (msd_fit (linregress on_empty) M (fit_window i))
           = Inr (Fin (ols_slope X Y), Fin (ols_slope X Y / (2 * 3)))"
    unfolding fit_model(3)[OF f(11)[of "linregress on_empty"]] X_def[symmetric] Y_def[symmetric] reg
    by (simp add: dim np_times_def np_over_def)
  have dif: "map_sum id diffusivity (msd_fit (linregress on_empty) M (fit_window i)) =
             Inr (Fin (ols_slope X Y / (2 * 3)))"
    using fit by (cases "msd_fit (linregress on_empty) M (fit_window i)") simp_all
  have opt: "sse X Y (ols_intercept X Y) (ols_slope X Y) \<le> sse X Y p q" for p q
    using ols_least_squares[OF l pts] .
  have lin: "map_sum id diffusivity (msd_fit (linregress on_empty) M (fit_window i)) =
               Inr (Fin (r / 6))"
    if h: "\<forall>k<n_frames M. timeseries M ! k = r * real_of_int (lagtimes_of (n_frames M) ! k) + p"
    for r p
  proof -
    have "k \<in> set [nat (t0 div timestep)..<nat (t1 div timestep)] \<Longrightarrow>
          timeseries M ! k = r * real_of_int (lagtimes_of (n_frames M) ! k) + p" for k
      using h f(9) by auto
    then have "Y = map (\<lambda>v. r * v + p) X"
      unfolding X_def Y_def sub_series_def by (simp add: comp_def cong: map_cong)
    then have "ols_slope X Y = r"
      using ols_slope_linear[OF pts] by simp
    with dif show ?thesis by simp
  qed
  note sec = msd_section_written(2)[OF enabled built held, unfolded lib, OF dif]
  have line: "diffusivity_line (Fin D) =
         Write [Lit ''Self-diffusivity coefficient: '', SciE 3 (Fin (D * (1 / 10 ^ 5))),
                Lit ('' m'' @ [CHR 0xC2, CHR 0xB2] @ ''/s'')]"
    by (simp add: diffusivity_line_def np_times_def)
  from fit opt lin sec line show ?thesis
    by (intro conjI allI impI) (simp_all only:)
qed

theorem diffusivity_of_slope_witness:
  "np_get (lagtimes_of (n_frames msd3)) 0 = Inr 0
   \<and> np_get (lagtimes_of (n_frames msd3)) (- 1) = Inr 200
   \<and> length (timeseries msd3) = n_frames msd3
   \<and> slider 0 200 (0, 200) (fit_window (demo_visit\<lparr>msd_check := True\<rparr>)) = Inr (0, 200)
   \<and> dim_fac msd3 = 3
   \<and> (2::int) \<le> 200 div timestep - 0 div timestep
   \<and> msd_check (demo_visit\<lparr>msd_check := True\<rparr>)
   \<and> create_u demo_collab demo_files demo_selection = Inr demo_universe
   \<and> session_state (fresh [''MSD'' \<mapsto> MSD msd3]) ''MSD'' = Some (MSD msd3)
   \<and> \<not> msd_button (demo_visit\<lparr>msd_check := True\<rparr>)
   \<and> regress demo_collab = linregress (Inr \<lparr>slope = NaN, intercept = NaN\<rparr>)
   \<and> timeseries msd3 ! 0 = 6 / 100 * real_of_int (lagtimes_of (n_frames msd3) ! 0) + 0
   \<and> timeseries msd3 ! 1 = 6 / 100 * real_of_int (lagtimes_of (n_frames msd3) ! 1) + 0
   \<and> timeseries msd3 ! 2 = 6 / 100 * real_of_int (lagtimes_of (n_frames msd3) ! 2) + 0
   \<and> ols_slope [0, 100] [0, 6] = 6 / 100
   \<and> map_sum id (\<lambda>f. (slope (linear_model f), diffusivity f))
        (msd_fit (linregress (Inr \<lparr>slope = NaN, intercept = NaN\<rparr>)) msd3
           (fit_window (demo_visit\<lparr>msd_check := True\<rparr>)))
       = Inr (Fin (6 / 100), Fin (6 / 100 / 6))
   \<and> written (snd (msd_section demo_collab demo_files demo_selection
        (demo_visit\<lparr>msd_check := True\<rparr>) (fresh [''MSD'' \<mapsto> MSD msd3]))) =
       [timestep_line, diffusivity_line (Fin (6 / 100 / 6))]
   \<and> diffusivity_line (Fin (6 / 100 / 6)) =
         Write [Lit ''Self-diffusivity coefficient: '', SciE 3 (Fin (1 / 10 ^ 7)),
                Lit ('' m'' @ [CHR 0xC2, CHR 0xB2] @ ''/s'')]"
  using diffusivity_of_slope[where M = msd3 and lo = 0 and hi = 200
      and i = "demo_visit\<lparr>msd_check := True\<rparr>" and ?t0.0 = 0 and ?t1.0 = 200
      and c = demo_collab and fs = demo_files and sel = demo_selection
      and u = demo_universe and s = "fresh [''MSD'' \<mapsto> MSD msd3]" and D = "6 / 100 / 6"
      and on_empty = "Inr \<lparr>slope = NaN, intercept = NaN\<rparr>"]
  by (simp add: msd3_def np_get_def lagtimes_of_def timestep_def sub_series_def slider_def
      ols_slope_def upt_rec demo_visit_def demo_collab_def demo_files_def demo_selection_def
      demo_universe_def create_u_def mda_Universe_def trajectory_file_def read_file_def
      fresh_def written_def)

subsection \<open>The system builder\<close>

text \<open>A system that the builder gives has no transformation.\<close>

lemma create_u_fresh: "create_u c fs sel = Inr u \<Longrightarrow> transformations u = []"
  by (auto simp: create_u_def mda_Universe_def split: sum.splits)

subsection \<open>What a section does to the session and which calls it makes\<close>

lemma and_then_simps:
  "and_then (None, s) f = f s" "and_then (Some e, s) f = (Some e, s)"
  by (simp_all add: and_then_def)

lemma and_then_ok:
  "fst (and_then r f) = None \<longleftrightarrow> fst r = None \<and> fst (f (snd r)) = None"
  by (cases r; cases "fst r") (auto simp: and_then_def)

lemma and_then_snd:
  "snd (and_then r f) = (if fst r = None then snd (f (snd r)) else snd r)"
  by (cases r; cases "fst r") (auto simp: and_then_def)

lemma called_simps:
  "session_state (called k s) = session_state s" "calls (called k s) = calls s @ [k]"
  "rendered (called k s) = rendered s"
  by (simp_all add: called_def)

lemma shown_simps:
  "session_state (shown el s) = session_state s" "calls (shown el s) = calls s"
  "rendered (shown el s) = rendered s @ [el]"
  by (simp_all add: shown_def)

lemma cached_run_session:
  "session_state (snd (cached_run k b r s)) =
     (if k \<notin> dom (session_state s) \<or> b
      then (case r of Inl e \<Rightarrow> session_state s | Inr v \<Rightarrow> (session_state s)(k \<mapsto> v))
      else session_state s)"
  by (cases r) (auto simp: cached_run_def run_and_store_def and_then_def called_def)

lemma cached_run_fst:
  "fst (cached_run k b r s) =
     (if k \<notin> dom (session_state s) \<or> b then (case r of Inl e \<Rightarrow> Some e | Inr v \<Rightarrow> None)
      else None)"
  by (cases r) (auto simp: cached_run_def run_and_store_def and_then_def called_def)

lemma cached_run_rendered: "rendered (snd (cached_run k b r s)) = rendered s"
  by (cases r) (auto simp: cached_run_def run_and_store_def and_then_def called_def)

lemma cached_run_calls:
  "calls (snd (cached_run k b r s)) =
     calls s
     @ (if k \<notin> dom (session_state s) then [RunAnalysis k] else [])
     @ (if b \<and> (k \<in> dom (session_state s) \<or> isl r = False) then [RunAnalysis k] else [])"
  by (cases r) (auto simp: cached_run_def run_and_store_def and_then_def called_def)

lemma section_session:
  "session_state (snd (section_of m c fs sel i s)) =
     (if enabled m i \<and> (key_of m \<notin> dom (session_state s) \<or> recalculate m i)
      then (case (case create_u c fs sel of Inl e \<Rightarrow> Inl e | Inr u \<Rightarrow> computed c u m) of
              Inl e \<Rightarrow> session_state s
            | Inr v \<Rightarrow> (session_state s)(key_of m \<mapsto> v))
      else session_state s)"
proof (cases m)
  case Rdf
  show ?thesis
    unfolding Rdf
    by (auto simp: rdf_section_def and_then_snd cached_run_session cached_run_fst called_simps
        shown_simps split: sum.splits prod.splits)
next
  case Density
  show ?thesis
    unfolding Density
    by (auto simp: dens_section_def and_then_snd cached_run_session cached_run_fst called_simps
        shown_simps split: sum.splits prod.splits)
next
  case Msd
  show ?thesis
    unfolding Msd
    by (auto simp: msd_section_def and_then_snd cached_run_session cached_run_fst called_simps
        shown_simps split: sum.splits prod.splits)
next
  case Dielectric
  show ?thesis
    unfolding Dielectric
    by (auto simp: diel_section_def and_then_snd cached_run_session cached_run_fst called_simps
        shown_simps split: sum.splits prod.splits)
qed



lemma section_ok:
  assumes "fst (section_of m c fs sel i s) = None" "enabled m i"
    "key_of m \<notin> dom (session_state s) \<or> recalculate m i"
  shows "\<exists>v. (case create_u c fs sel of Inl e \<Rightarrow> Inl e | Inr u \<Rightarrow> computed c u m) = Inr v"
proof (cases m)
  case Rdf
  show ?thesis
    using assms unfolding Rdf
    by (auto simp: rdf_section_def and_then_ok cached_run_fst called_simps
        split: sum.splits prod.splits if_splits)
next
  case Density
  show ?thesis
    using assms unfolding Density
    by (auto simp: dens_section_def and_then_ok cached_run_fst called_simps
        split: sum.splits prod.splits if_splits)
next
  case Msd
  show ?thesis
    using assms unfolding Msd
    by (auto simp: msd_section_def and_then_ok cached_run_fst called_simps
        split: sum.splits prod.splits if_splits)
next
  case Dielectric
  show ?thesis
    using assms unfolding Dielectric
    by (auto simp: diel_section_def and_then_ok cached_run_fst called_simps
        split: sum.splits prod.splits if_splits)
qed

lemma section_run_calls:
  assumes "RunAnalysis k \<in> set (calls (snd (section_of m c fs sel i s)))"
  shows "RunAnalysis k \<in> set (calls s) \<or>
         (k = key_of m \<and> enabled m i \<and> (key_of m \<notin> dom (session_state s) \<or> recalculate m i))"
proof (cases m)
  case Rdf
  show ?thesis
    using assms unfolding Rdf
    by (auto simp: rdf_section_def and_then_snd cached_run_calls called_simps shown_simps
        split: sum.splits prod.splits if_splits)
next
  case Density
  show ?thesis
    using assms unfolding Density
    by (auto simp: dens_section_def and_then_snd cached_run_calls called_simps shown_simps
        split: sum.splits prod.splits if_splits)
next
  case Msd
  show ?thesis
    using assms unfolding Msd
    by (auto simp: msd_section_def and_then_snd cached_run_calls called_simps shown_simps
        split: sum.splits prod.splits if_splits)
next
  case Dielectric
  show ?thesis
    using assms unfolding Dielectric
    by (auto simp: diel_section_def and_then_snd cached_run_calls called_simps shown_simps
        split: sum.splits prod.splits if_splits)
qed

lemma section_calls_mono: "set (calls s) \<subseteq> set (calls (snd (section_of m c fs sel i s)))"
proof (cases m)
  case Rdf
  show ?thesis
    unfolding Rdf
    by (auto simp: rdf_section_def and_then_snd cached_run_calls called_simps shown_simps
        split: sum.splits prod.splits if_splits)
next
  case Density
  show ?thesis
    unfolding Density
    by (auto simp: dens_section_def and_then_snd cached_run_calls called_simps shown_simps
        split: sum.splits prod.splits if_splits)
next
  case Msd
  show ?thesis
    unfolding Msd
    by (auto simp: msd_section_def and_then_snd cached_run_calls called_simps shown_simps
        split: sum.splits prod.splits if_splits)
next
  case Dielectric
  show ?thesis
    unfolding Dielectric
    by (auto simp: diel_section_def and_then_snd cached_run_calls called_simps shown_simps
        split: sum.splits prod.splits if_splits)
qed

lemma section_ran:
  assumes "fst (section_of m c fs sel i s) = None" "enabled m i"
    "key_of m \<notin> dom (session_state s) \<or> recalculate m i"
  shows "RunAnalysis (key_of m) \<in> set (calls (snd (section_of m c fs sel i s)))"
proof (cases m)
  case Rdf
  show ?thesis
    using assms unfolding Rdf
    by (auto simp: rdf_section_def and_then_snd and_then_ok cached_run_fst cached_run_calls
        called_simps shown_simps split: sum.splits prod.splits if_splits)
next
  case Density
  show ?thesis
    using assms unfolding Density
    by (auto simp: dens_section_def and_then_snd and_then_ok cached_run_fst cached_run_calls
        called_simps shown_simps split: sum.splits prod.splits if_splits)
next
  case Msd
  show ?thesis
    using assms unfolding Msd
    by (auto simp: msd_section_def and_then_snd and_then_ok cached_run_fst cached_run_calls
        called_simps shown_simps split: sum.splits prod.splits if_splits)
next
  case Dielectric
  show ?thesis
    using assms unfolding Dielectric
    by (auto simp: diel_section_def and_then_snd and_then_ok cached_run_fst cached_run_calls
        called_simps shown_simps split: sum.splits prod.splits if_splits)
qed

lemma section_build_fails:
  assumes "create_u c fs sel = Inl e"
  shows "section_of m c fs sel i s =
         (if enabled m i then (Some e, called (BuildSystem sel) s) else (None, s))"
  using assms
  by (cases m)
    (simp_all add: rdf_section_def dens_section_def msd_section_def diel_section_def)

subsection \<open>A run of the page, section by section\<close>

lemma page_sections:
  "page c fs i s = run_sections [Rdf, Density, Msd, Dielectric] c fs (resolve i) i s"
proof -
  have e: "and_then r (\<lambda>s. (None, s)) = r" for r :: outcome
    by (cases r; cases "fst r") (auto simp: and_then_def)
  have n: "run_sections [] c fs sel i = (\<lambda>s. (None, s))" for sel
    by (rule ext) simp
  have d: "run_sections [Dielectric] c fs sel i = diel_section c fs sel i" for sel
    by (rule ext) (simp add: e n)
  have m: "run_sections [Msd, Dielectric] c fs sel i =
           (\<lambda>s2. and_then (msd_section c fs sel i s2) (diel_section c fs sel i))" for sel
    by (rule ext) (simp add: d)
  have l: "run_sections [Density, Msd, Dielectric] c fs sel i =
           (\<lambda>s1. and_then (dens_section c fs sel i s1)
              (\<lambda>s2. and_then (msd_section c fs sel i s2) (diel_section c fs sel i)))" for sel
    by (rule ext) (simp add: m)
  show ?thesis
    by (simp add: page_def l)
qed

lemma key_of_inj: "key_of m = key_of m' \<longleftrightarrow> m = m'"
  by (cases m; cases m') simp_all

lemma section_other_key:
  "m' \<noteq> m \<Longrightarrow>
   session_state (snd (section_of m' c fs sel i s)) (key_of m) = session_state s (key_of m)"
  by (auto simp: section_session key_of_inj split: sum.splits)

lemma section_cached:
  "key_of m \<in> dom (session_state s) \<Longrightarrow> \<not> (enabled m i \<and> recalculate m i) \<Longrightarrow>
   session_state (snd (section_of m' c fs sel i s)) (key_of m) = session_state s (key_of m)"
  by (cases "m' = m") (auto simp: section_session key_of_inj split: sum.splits)

lemma run_sections_cached:
  "key_of m \<in> dom (session_state s) \<Longrightarrow> \<not> (enabled m i \<and> recalculate m i) \<Longrightarrow>
   session_state (snd (run_sections ms c fs sel i s)) (key_of m) = session_state s (key_of m)"
proof (induction ms arbitrary: s)
  case Nil
  show ?case by simp
next
  case (Cons m' ms)
  have keep: "session_state (snd (section_of m' c fs sel i s)) (key_of m) =
              session_state s (key_of m)"
    using section_cached[OF Cons.prems] .
  then have "key_of m \<in> dom (session_state (snd (section_of m' c fs sel i s)))"
    using Cons.prems(1) by (auto simp: dom_def)
  from Cons.IH[OF this Cons.prems(2)] keep show ?case
    by (simp add: and_then_snd)
qed

lemma run_sections_no_run:
  "key_of m \<in> dom (session_state s) \<Longrightarrow> \<not> (enabled m i \<and> recalculate m i) \<Longrightarrow>
   RunAnalysis (key_of m) \<in> set (calls (snd (run_sections ms c fs sel i s))) \<Longrightarrow>
   RunAnalysis (key_of m) \<in> set (calls s)"
proof (induction ms arbitrary: s)
  case Nil
  then show ?case by simp
next
  case (Cons m' ms)
  let ?s' = "snd (section_of m' c fs sel i s)"
  have keep: "session_state ?s' (key_of m) = session_state s (key_of m)"
    using section_cached[OF Cons.prems(1,2)] .
  then have d: "key_of m \<in> dom (session_state ?s')"
    using Cons.prems(1) by (auto simp: dom_def)
  have "RunAnalysis (key_of m) \<in> set (calls ?s')"
  proof (cases "fst (section_of m' c fs sel i s) = None")
    case True
    with Cons.prems(3) have "RunAnalysis (key_of m) \<in> set (calls (snd (run_sections ms c fs sel i ?s')))"
      by (simp add: and_then_snd)
    from Cons.IH[OF d Cons.prems(2) this] show ?thesis .
  next
    case False
    with Cons.prems(3) show ?thesis by (simp add: and_then_snd)
  qed
  from section_run_calls[OF this] Cons.prems(1,2) show ?case
    by (auto simp: key_of_inj)
qed

lemma run_sections_calls_mono:
  "set (calls s) \<subseteq> set (calls (snd (run_sections ms c fs sel i s)))"
proof (induction ms arbitrary: s)
  case Nil
  show ?case by simp
next
  case (Cons m' ms)
  show ?case
    using section_calls_mono[of s m' c fs sel i]
      Cons.IH[of "snd (section_of m' c fs sel i s)"]
    by (auto simp: and_then_snd)
qed

lemma run_sections_untouched:
  "m \<notin> set ms \<Longrightarrow>
   session_state (snd (run_sections ms c fs sel i s)) (key_of m) = session_state s (key_of m)"
proof (induction ms arbitrary: s)
  case Nil
  show ?case by simp
next
  case (Cons m' ms)
  then have "m' \<noteq> m" "m \<notin> set ms" by auto
  from section_other_key[OF this(1)] Cons.IH[OF this(2)] show ?case
    by (simp add: and_then_snd)
qed

lemma run_sections_fresh:
  assumes "m \<in> set ms" "distinct ms" "enabled m i"
    "key_of m \<notin> dom (session_state s) \<or> recalculate m i"
    "fst (run_sections ms c fs sel i s) = None"
  shows "map_sum id Some (case create_u c fs sel of Inl e \<Rightarrow> Inl e | Inr u \<Rightarrow> computed c u m) =
           Inr (session_state (snd (run_sections ms c fs sel i s)) (key_of m))
       \<and> RunAnalysis (key_of m) \<in> set (calls (snd (run_sections ms c fs sel i s)))"
  using assms
proof (induction ms arbitrary: s)
  case Nil
  then show ?case by simp
next
  case (Cons m' ms)
  let ?s' = "snd (section_of m' c fs sel i s)"
  have ok: "fst (section_of m' c fs sel i s) = None" "fst (run_sections ms c fs sel i ?s') = None"
    using Cons.prems(5) by (simp_all add: and_then_ok)
  have snd_eq: "snd (run_sections (m' # ms) c fs sel i s) = snd (run_sections ms c fs sel i ?s')"
    using ok by (simp add: and_then_snd)
  show ?case
  proof (cases "m' = m")
    case True
    then have notin: "m \<notin> set ms" using Cons.prems(2) by simp
    obtain v where v: "(case create_u c fs sel of Inl e \<Rightarrow> Inl e | Inr u \<Rightarrow> computed c u m) = Inr v"
      using section_ok[OF ok(1)[unfolded True] Cons.prems(3,4)] by blast
    have "session_state ?s' (key_of m) = Some v"
      using Cons.prems(3,4) v unfolding True by (simp add: section_session)
    then have st: "session_state (snd (run_sections ms c fs sel i ?s')) (key_of m) = Some v"
      using run_sections_untouched[OF notin] by simp
    have "RunAnalysis (key_of m) \<in> set (calls ?s')"
      using section_ran[OF ok(1)[unfolded True] Cons.prems(3,4)] unfolding True .
    then have "RunAnalysis (key_of m) \<in> set (calls (snd (run_sections ms c fs sel i ?s')))"
      using run_sections_calls_mono by blast
    with st v show ?thesis unfolding snd_eq by simp
  next
    case False
    then have in_ms: "m \<in> set ms" using Cons.prems(1) by simp
    have "session_state ?s' (key_of m) = session_state s (key_of m)"
      using section_other_key[OF False] .
    then have d: "key_of m \<notin> dom (session_state ?s') \<or> recalculate m i"
      using Cons.prems(4) by (auto simp: dom_def)
    from Cons.IH[OF in_ms _ Cons.prems(3) d ok(2)] Cons.prems(2) show ?thesis
      unfolding snd_eq by simp
  qed
qed

subsection \<open>A missing selection\<close>

lemma run_sections_build_fails:
  assumes "create_u c fs sel = Inl e"
  shows "run_sections ms c fs sel i s =
         (if \<exists>m \<in> set ms. enabled m i then (Some e, called (BuildSystem sel) s) else (None, s))"
proof (induction ms)
  case Nil
  show ?case by simp
next
  case (Cons m ms)
  show ?case
    by (simp add: section_build_fails[OF assms] Cons.IH and_then_simps)
qed

lemma page_build_fails:
  assumes "create_u c fs (resolve i) = Inl e"
  shows "page c fs i s =
         (if any_enabled i then (Some e, called (BuildSystem (resolve i)) s) else (None, s))"
  unfolding page_sections run_sections_build_fails[OF assms]
  by (auto simp: any_enabled_def)

lemma create_u_missing:
  assumes "topo_selection sel = None \<or> pbc_selection sel = None
           \<or> (xyz_selection sel = None \<and> fs [''None''] = None)"
  shows "\<exists>e. create_u c fs sel = Inl e"
  using assms
  by (auto simp: create_u_def mda_Universe_def trajectory_file_def read_file_def
      split: sum.splits option.splits)

lemma create_u_no_trajectory:
  "xyz_selection sel = None \<Longrightarrow>
   create_u c fs sel = create_u c fs (sel\<lparr>xyz_selection := Some [''None'']\<rparr>)"
  by (simp add: create_u_def mda_Universe_def trajectory_file_def
      cong: sum.case_cong option.case_cong)

lemma sort_empty: "sort a = [] \<longleftrightarrow> a = []"
  by (metis length_sort length_0_conv)

lemma resolve_missing:
  "xyz_selection (resolve i) = None \<longleftrightarrow> xyz_found i = []"
  "topo_selection (resolve i) = None \<longleftrightarrow> topo_found i = []"
  "pbc_selection (resolve i) = None \<longleftrightarrow> pbc_found i = []"
  by (simp_all add: resolve_def selectbox_def sort_empty)

text \<open>Claim C3 says that with a selection absent no analysis is invoked and no system
  build is attempted on the missing selection. The page has no check of the selections,
  and an absent trajectory does not stop the builder: the reader of the library takes
  the file named \<^verbatim>\<open>None\<close>. With no trajectory file found, a file of that name in the
  working directory and the dielectric box ticked, the run calls the system builder with
  the trajectory \<^verbatim>\<open>None\<close>, the build succeeds, and the analysis is run, stored and
  shown.\<close>

theorem missing_selection_counterexample:
  "xyz_selection (resolve (demo_visit\<lparr>xyz_found := [], diel_check := True\<rparr>)) = None
   \<and> page demo_collab (demo_files([''None''] \<mapsto> ''xyz''))
       (demo_visit\<lparr>xyz_found := [], diel_check := True\<rparr>) (fresh Map.empty) =
     (None,
      \<lparr>session_state = [''diel'' \<mapsto> Diel 78],
       calls = [BuildSystem \<lparr>xyz_selection = None, topo_selection = Some [''topo.mol2''],
                             pbc_selection = Some [''box.pbc'']\<rparr>,
                RunAnalysis ''diel''],
       rendered = [Write [Lit ''Dielectric constant: '', Num 78]]\<rparr>)"
  by (simp add: page_def rdf_section_def dens_section_def msd_section_def diel_section_def
      and_then_def cached_run_def run_and_store_def lookup_def as_diel_def called_def shown_def
      fresh_def demo_visit_def demo_collab_def demo_files_def demo_universe_def resolve_def
      selectbox_def create_u_def mda_Universe_def trajectory_file_def read_file_def)

text \<open>Claim C3, amended. For every run in which the topology or the box selection is
  absent, or the trajectory selection is absent and the working directory has no file
  named \<^verbatim>\<open>None\<close>: the page does not check the selections; when a metric is enabled, the
  section of the first enabled metric calls the system builder with the missing
  selection, the builder raises an error, and the run stops there. No \<^verbatim>\<open>run\<close> of an
  analysis is invoked, the session keeps what it held, and nothing is shown. With the
  trajectory selection absent the builder does what it does on the selection of the file
  named \<^verbatim>\<open>None\<close>.\<close>

theorem missing_selection_stops_run:
  assumes "topo_found i = [] \<or> pbc_found i = [] \<or> (xyz_found i = [] \<and> fs [''None''] = None)"
  shows "(topo_selection (resolve i) = None \<or> pbc_selection (resolve i) = None
            \<or> xyz_selection (resolve i) = None)
    \<and> (\<exists>e. create_u c fs (resolve i) = Inl e
          \<and> page c fs i s =
              (if any_enabled i then (Some e, called (BuildSystem (resolve i)) s) else (None, s)))
    \<and> session_state (snd (page c fs i s)) = session_state s
    \<and> rendered (snd (page c fs i s)) = rendered s
    \<and> (\<forall>k. RunAnalysis k \<in> set (calls (snd (page c fs i s))) \<longrightarrow> RunAnalysis k \<in> set (calls s))
    \<and> (xyz_found i = [] \<longrightarrow>
          create_u c fs (resolve i) =
            create_u c fs ((resolve i)\<lparr>xyz_selection := Some [''None'']\<rparr>))"
proof -
  have miss: "topo_selection (resolve i) = None \<or> pbc_selection (resolve i) = None
            \<or> (xyz_selection (resolve i) = None \<and> fs [''None''] = None)"
    using assms by (simp add: resolve_missing)
  then obtain e where e: "create_u c fs (resolve i) = Inl e"
    using create_u_missing by blast
  note p = page_build_fails[OF e, of s]
  have x: "create_u c fs (resolve i) =
            create_u c fs ((resolve i)\<lparr>xyz_selection := Some [''None'']\<rparr>)"
    if "xyz_found i = []"
    using that by (intro create_u_no_trajectory) (simp add: resolve_missing)
  show ?thesis
    using miss e p x by (auto simp: called_simps)
qed

theorem missing_selection_stops_run_witness:
  "topo_found (demo_visit\<lparr>topo_found := [], rdf_check := True\<rparr>) = []
   \<and> topo_selection (resolve (demo_visit\<lparr>topo_found := [], rdf_check := True\<rparr>)) = None
   \<and> page demo_collab demo_files (demo_visit\<lparr>topo_found := [], rdf_check := True\<rparr>)
        (fresh Map.empty) =
       (Some TypeError,
        \<lparr>session_state = Map.empty,
         calls = [BuildSystem \<lparr>xyz_selection = Some [''traj.xyz''], topo_selection = None,
                               pbc_selection = Some [''box.pbc'']\<rparr>],
         rendered = []\<rparr>)
   \<and> xyz_found (demo_visit\<lparr>xyz_found := [], diel_check := True\<rparr>) = []
   \<and> demo_files [''None''] = None
   \<and> page demo_collab demo_files (demo_visit\<lparr>xyz_found := [], diel_check := True\<rparr>)
        (fresh Map.empty) =
       (Some FileNotFoundError,
        \<lparr>session_state = Map.empty,
         calls = [BuildSystem \<lparr>xyz_selection = None, topo_selection = Some [''topo.mol2''],
                               pbc_selection = Some [''box.pbc'']\<rparr>],
         rendered = []\<rparr>)"
  using missing_selection_stops_run[of "demo_visit\<lparr>topo_found := [], rdf_check := True\<rparr>"
      demo_files demo_collab "fresh Map.empty"]
    missing_selection_stops_run[of "demo_visit\<lparr>xyz_found := [], diel_check := True\<rparr>"
      demo_files demo_collab "fresh Map.empty"]
  by (auto simp: demo_visit_def demo_files_def demo_collab_def resolve_def selectbox_def
      create_u_def mda_Universe_def trajectory_file_def read_file_def fresh_def any_enabled_def
      called_def)

subsection \<open>The cache of a metric\<close>

lemma fresh_simps:
  "session_state (fresh ss) = ss" "calls (fresh ss) = []" "rendered (fresh ss) = []"
  by (simp_all add: fresh_def)

lemma rerun_cached:
  assumes "key_of m \<in> dom ss" "\<not> (enabled m (snd st) \<and> recalculate m (snd st))"
  shows "rerun c st ss (key_of m) = ss (key_of m)"
  using run_sections_cached[of m "fresh ss" "snd st" "[Rdf, Density, Msd, Dielectric]" c "fst st"
      "resolve (snd st)"] assms
  by (simp add: rerun_def page_sections fresh_simps)

lemma reruns_cached:
  assumes "key_of m \<in> dom ss" "\<forall>st \<in> set steps. \<not> (enabled m (snd st) \<and> recalculate m (snd st))"
  shows "reruns c steps ss (key_of m) = ss (key_of m)"
  using assms
proof (induction steps arbitrary: ss)
  case Nil
  show ?case by (simp add: reruns_def)
next
  case (Cons st steps)
  have one: "rerun c st ss (key_of m) = ss (key_of m)"
    using rerun_cached[OF Cons.prems(1)] Cons.prems(2) by simp
  then have "key_of m \<in> dom (rerun c st ss)"
    using Cons.prems(1) by (auto simp: dom_def)
  from Cons.IH[OF this] Cons.prems(2) one show ?case
    by (simp add: reruns_def)
qed

lemma page_fresh_result:
  assumes "enabled m i" "key_of m \<notin> dom ss \<or> recalculate m i" "fst (page c fs i (fresh ss)) = None"
  shows "map_sum id Some (fresh_result c fs i m) =
           Inr (session_state (snd (page c fs i (fresh ss))) (key_of m))
       \<and> RunAnalysis (key_of m) \<in> set (calls (snd (page c fs i (fresh ss))))"
  using run_sections_fresh[of m "[Rdf, Density, Msd, Dielectric]" i "fresh ss" c fs "resolve i"] assms
  unfolding page_sections fresh_result_def
  by (cases m) (simp_all add: fresh_simps)

lemma page_cached:
  assumes "key_of m \<in> dom ss" "\<not> (enabled m i \<and> recalculate m i)"
  shows "session_state (snd (page c fs i (fresh ss))) (key_of m) = ss (key_of m)
       \<and> RunAnalysis (key_of m) \<notin> set (calls (snd (page c fs i (fresh ss))))"
  using run_sections_cached[of m "fresh ss" i "[Rdf, Density, Msd, Dielectric]" c fs "resolve i"]
    run_sections_no_run[of m "fresh ss" i "[Rdf, Density, Msd, Dielectric]" c fs "resolve i"] assms
  unfolding page_sections
  by (auto simp: fresh_simps)

text \<open>Claim C4. For every metric and every run of the page in a session: when the session
  has no value for the metric and the metric is enabled, a run that completes has
  computed the result on the system of the current selection and stored it; when the
  session has a value and the recalculate button of the metric is not pressed, the run
  leaves the value as it is and does not run the analysis, whatever the selection and the
  files are; when the button is pressed, a run that completes has run the analysis and
  stored the new result; and over every sequence of runs in which the button of the
  metric is never pressed, with any selections and any files, the stored value stays.\<close>

theorem metric_cached:
  "(key_of m \<notin> dom ss \<longrightarrow> enabled m i \<longrightarrow> fst (page c fs i (fresh ss)) = None \<longrightarrow>
      map_sum id Some (fresh_result c fs i m) =
        Inr (session_state (snd (page c fs i (fresh ss))) (key_of m))
      \<and> RunAnalysis (key_of m) \<in> set (calls (snd (page c fs i (fresh ss)))))
   \<and> (key_of m \<in> dom ss \<longrightarrow> \<not> (enabled m i \<and> recalculate m i) \<longrightarrow>
      session_state (snd (page c fs i (fresh ss))) (key_of m) = ss (key_of m)
      \<and> RunAnalysis (key_of m) \<notin> set (calls (snd (page c fs i (fresh ss)))))
   \<and> (enabled m i \<longrightarrow> recalculate m i \<longrightarrow> fst (page c fs i (fresh ss)) = None \<longrightarrow>
      map_sum id Some (fresh_result c fs i m) =
        Inr (session_state (snd (page c fs i (fresh ss))) (key_of m))
      \<and> RunAnalysis (key_of m) \<in> set (calls (snd (page c fs i (fresh ss)))))
   \<and> (key_of m \<in> dom ss \<longrightarrow>
      (\<forall>st \<in> set steps. \<not> (enabled m (snd st) \<and> recalculate m (snd st))) \<longrightarrow>
      reruns c steps ss (key_of m) = ss (key_of m))"
  using page_fresh_result[of m i ss c fs] page_cached[of m ss i c fs] reruns_cached[of m ss steps c]
  by blast

theorem metric_cached_witness:
  "key_of Dielectric \<notin> dom (Map.empty :: string \<rightharpoonup> stored)
   \<and> enabled Dielectric (demo_visit\<lparr>diel_check := True\<rparr>)
   \<and> fst (page demo_collab demo_files (demo_visit\<lparr>diel_check := True\<rparr>) (fresh Map.empty)) = None
   \<and> fresh_result demo_collab demo_files (demo_visit\<lparr>diel_check := True\<rparr>) Dielectric
        = Inr (Diel 78)
   \<and> session_state (snd (page demo_collab demo_files (demo_visit\<lparr>diel_check := True\<rparr>)
        (fresh Map.empty))) ''diel'' = Some (Diel 78)
   \<and> key_of Dielectric \<in> dom [''diel'' \<mapsto> Diel 1]
   \<and> \<not> recalculate Dielectric (demo_visit\<lparr>xyz_found := [[''a.xyz'']], diel_check := True\<rparr>)
   \<and> xyz_selection (resolve (demo_visit\<lparr>xyz_found := [[''a.xyz'']], diel_check := True\<rparr>))
        = Some [''a.xyz'']
   \<and> fst (page demo_collab (demo_files([''a.xyz''] \<mapsto> ''xyz''))
        (demo_visit\<lparr>xyz_found := [[''a.xyz'']], diel_check := True\<rparr>)
        (fresh [''diel'' \<mapsto> Diel 1])) = None
   \<and> session_state (snd (page demo_collab (demo_files([''a.xyz''] \<mapsto> ''xyz''))
        (demo_visit\<lparr>xyz_found := [[''a.xyz'']], diel_check := True\<rparr>)
        (fresh [''diel'' \<mapsto> Diel 1]))) ''diel'' = Some (Diel 1)
   \<and> recalculate Dielectric (demo_visit\<lparr>diel_check := True, diel_button := True\<rparr>)
   \<and> session_state (snd (page demo_collab demo_files
        (demo_visit\<lparr>diel_check := True, diel_button := True\<rparr>)
        (fresh [''diel'' \<mapsto> Diel 1]))) ''diel'' = Some (Diel 78)
   \<and> reruns demo_collab
        [(demo_files([''a.xyz''] \<mapsto> ''xyz''),
          demo_visit\<lparr>xyz_found := [[''a.xyz'']], diel_check := True\<rparr>),
         (demo_files, demo_visit\<lparr>diel_check := True\<rparr>)]
        [''diel'' \<mapsto> Diel 1] ''diel'' = Some (Diel 1)"
  using metric_cached[of Dielectric Map.empty "demo_visit\<lparr>diel_check := True\<rparr>" demo_collab
      demo_files "[]"]
    metric_cached[of Dielectric "[''diel'' \<mapsto> Diel 1]"
      "demo_visit\<lparr>xyz_found := [[''a.xyz'']], diel_check := True\<rparr>" demo_collab
      "demo_files([''a.xyz''] \<mapsto> ''xyz'')"
      "[(demo_files([''a.xyz''] \<mapsto> ''xyz''),
          demo_visit\<lparr>xyz_found := [[''a.xyz'']], diel_check := True\<rparr>),
         (demo_files, demo_visit\<lparr>diel_check := True\<rparr>)]"]
    metric_cached[of Dielectric "[''diel'' \<mapsto> Diel 1]"
      "demo_visit\<lparr>diel_check := True, diel_button := True\<rparr>" demo_collab demo_files "[]"]
  by (simp add: page_def rdf_section_def dens_section_def msd_section_def diel_section_def
      and_then_def cached_run_def run_and_store_def lookup_def as_diel_def called_def shown_def
      fresh_def fresh_result_def demo_visit_def demo_collab_def demo_files_def demo_universe_def
      resolve_def selectbox_def create_u_def mda_Universe_def trajectory_file_def read_file_def
      all_atoms_def)

subsection \<open>The MSD series and the lag-time axis\<close>






subsection \<open>The average of the linear densities\<close>

lemma np_add_same_length:
  "length a = length b \<Longrightarrow> np_add a b = Inr (map2 (+) a b)"
  by (simp add: np_add_def)

lemma ldens_average_equal_bins:
  assumes "length (mass_density (res_x l)) = n" "length (mass_density (res_y l)) = n"
    "length (mass_density (res_z l)) = n"
  shows "ldens_average l =
         Inr (map (\<lambda>k. (mass_density (res_x l) ! k + mass_density (res_y l) ! k
                          + mass_density (res_z l) ! k) / 3) [0..<n])"
proof -
  have xy: "np_add (mass_density (res_x l)) (mass_density (res_y l)) =
            Inr (map2 (+) (mass_density (res_x l)) (mass_density (res_y l)))"
    using assms by (simp add: np_add_same_length)
  have xyz: "np_add (map2 (+) (mass_density (res_x l)) (mass_density (res_y l)))
               (mass_density (res_z l)) =
             Inr (map2 (+) (map2 (+) (mass_density (res_x l)) (mass_density (res_y l)))
                    (mass_density (res_z l)))"
    using assms by (simp add: np_add_same_length)
  have "map (\<lambda>v. v / 3)
          (map2 (+) (map2 (+) (mass_density (res_x l)) (mass_density (res_y l)))
             (mass_density (res_z l))) =
        map (\<lambda>k. (mass_density (res_x l) ! k + mass_density (res_y l) ! k
                          + mass_density (res_z l) ! k) / 3) [0..<n]"
    using assms by (intro nth_equalityI) simp_all
  then show ?thesis
    by (simp add: ldens_average_def xy xyz)
qed

lemma dens_section_shows:
  assumes "dens_check i" "fst (dens_section c fs sel i s) = None"
    "session_state (snd (dens_section c fs sel i s)) ''ldens'' = Some (LDens l)"
    "ldens_average l = Inr avg"
  shows "rendered (snd (dens_section c fs sel i s)) = rendered s @ [PlotlyChart (ldens_figure l avg)]"
  using assms
  by (auto simp: dens_section_def and_then_snd and_then_ok cached_run_fst cached_run_session
      cached_run_rendered called_simps shown_simps lookup_def as_ldens_def
      split: sum.splits prod.splits if_splits option.splits stored.splits)

text \<open>Claim C7. For every linear-density result whose three axes have the same number
  \<open>n\<close> of bins and the same number \<open>e\<close> of bin edges (what the library gives for the
  cubic cell of the system builder): when linear density is enabled and the section
  completes with this result in the session, the average is computed without error, has
  \<open>n\<close> values, and its value at every bin is \<open>(x + y + z) / 3\<close> of the three mass
  densities at that bin; and the section shows one chart with the four series X, Y, Z and
  Average, the last holding the average, each over \<open>e\<close> bin edges.\<close>

theorem ldens_average_is_mean:
  assumes bins: "length (mass_density (res_x l)) = n" "length (mass_density (res_y l)) = n"
    "length (mass_density (res_z l)) = n"
    and edges: "length (hist_bin_edges (res_x l)) = e" "length (hist_bin_edges (res_y l)) = e"
    "length (hist_bin_edges (res_z l)) = e"
    and enabled: "dens_check i" and completes: "fst (dens_section c fs sel i s) = None"
    and stored: "session_state (snd (dens_section c fs sel i s)) ''ldens'' = Some (LDens l)"
  shows "\<exists>average. ldens_average l = Inr average
    \<and> length average = n
    \<and> (\<forall>k<n. average ! k = (mass_density (res_x l) ! k + mass_density (res_y l) ! k
                               + mass_density (res_z l) ! k) / 3)
    \<and> rendered (snd (dens_section c fs sel i s)) =
        rendered s @ [PlotlyChart (ldens_figure l average)]
    \<and> map trace_name (traces (ldens_figure l average)) = [''X'', ''Y'', ''Z'', ''Average'']
    \<and> map trace_y (traces (ldens_figure l average)) =
        [mass_density (res_x l), mass_density (res_y l), mass_density (res_z l), average]
    \<and> map (\<lambda>t. length (trace_x t)) (traces (ldens_figure l average)) = [e, e, e, e]"
proof -
  let ?avg = "map (\<lambda>k. (mass_density (res_x l) ! k + mass_density (res_y l) ! k
                          + mass_density (res_z l) ! k) / 3) [0..<n]"
  have a: "ldens_average l = Inr ?avg"
    using ldens_average_equal_bins[OF bins] .
  have "rendered (snd (dens_section c fs sel i s)) = rendered s @ [PlotlyChart (ldens_figure l ?avg)]"
    using dens_section_shows[OF enabled completes stored a] .
  with a edges show ?thesis
    by (intro exI[of _ ?avg]) (simp add: ldens_figure_def Scatter_def)
qed

theorem ldens_average_is_mean_witness:
  "length (mass_density (res_x demo_ldens)) = 2 \<and> length (mass_density (res_y demo_ldens)) = 2
   \<and> length (mass_density (res_z demo_ldens)) = 2
   \<and> length (hist_bin_edges (res_x demo_ldens)) = 3 \<and> length (hist_bin_edges (res_y demo_ldens)) = 3
   \<and> length (hist_bin_edges (res_z demo_ldens)) = 3
   \<and> dens_check (demo_visit\<lparr>dens_check := True\<rparr>)
   \<and> fst (dens_section demo_collab demo_files demo_selection (demo_visit\<lparr>dens_check := True\<rparr>)
        (fresh Map.empty)) = None
   \<and> session_state (snd (dens_section demo_collab demo_files demo_selection
        (demo_visit\<lparr>dens_check := True\<rparr>) (fresh Map.empty))) ''ldens'' = Some (LDens demo_ldens)
   \<and> ldens_average demo_ldens = Inr [2, 5]
   \<and> rendered (snd (dens_section demo_collab demo_files demo_selection
        (demo_visit\<lparr>dens_check := True\<rparr>) (fresh Map.empty))) =
       [PlotlyChart (ldens_figure demo_ldens [2, 5])]"
  using ldens_average_is_mean[of demo_ldens 2 3 "demo_visit\<lparr>dens_check := True\<rparr>" demo_collab
      demo_files demo_selection "fresh Map.empty"]
  by (simp add: dens_section_def and_then_def cached_run_def run_and_store_def lookup_def
      as_ldens_def called_def shown_def fresh_def demo_visit_def demo_collab_def demo_files_def
      demo_selection_def demo_ldens_def demo_universe_def create_u_def mda_Universe_def
      trajectory_file_def read_file_def ldens_average_def np_add_def)

subsection \<open>The configuration of the RDF\<close>

lemma counted_pairs_block_one:
  assumes "distinct g"
  shows "(p, q) \<in> set (counted_pairs \<lparr>g1 = g, g2 = g, nbins = b, rdf_range = r,
                                     exclusion_block = Some (1, 1)\<rparr>)
         \<longleftrightarrow> p \<in> set g \<and> q \<in> set g \<and> p \<noteq> q"
proof
  assume "(p, q) \<in> set (counted_pairs \<lparr>g1 = g, g2 = g, nbins = b, rdf_range = r,
                                     exclusion_block = Some (1, 1)\<rparr>)"
  then obtain i j where "i < length g" "j < length g" "i \<noteq> j" "p = g ! i" "q = g ! j"
    by (auto simp: counted_pairs_def)
  then show "p \<in> set g \<and> q \<in> set g \<and> p \<noteq> q"
    using assms by (auto simp: nth_eq_iff_index_eq)
next
  assume "p \<in> set g \<and> q \<in> set g \<and> p \<noteq> q"
  then obtain i j where "i < length g" "j < length g" "p = g ! i" "q = g ! j" "p \<noteq> q"
    by (auto simp: in_set_conv_nth)
  then show "(p, q) \<in> set (counted_pairs \<lparr>g1 = g, g2 = g, nbins = b, rdf_range = r,
                                     exclusion_block = Some (1, 1)\<rparr>)"
    by (auto simp: counted_pairs_def intro!: bexI[of _ i] image_eqI[of _ _ j])
qed

lemma rdf_setup_built:
  assumes "transformations u = []"
  shows "rdf_setup u =
           Inr (u\<lparr>transformations :=
                    [unwrap [0..<length (atoms u)],
                     wrap (filter (\<lambda>k. resid (atoms u ! k) \<noteq> 201) [0..<length (atoms u)])
                       Residues]\<rparr>,
                \<lparr>g1 = filter (\<lambda>k. name (atoms u ! k) = ''O'') [0..<length (atoms u)],
                 g2 = filter (\<lambda>k. name (atoms u ! k) = ''O'') [0..<length (atoms u)],
                 nbins = 500, rdf_range = (2, 9), exclusion_block = Some (1, 1)\<rparr>)"
  using assms
  by (simp add: rdf_setup_def add_transformations_def select_atoms_def all_atoms_def Let_def)

lemma rdf_section_runs:
  assumes "rdf_check i" "create_u c fs sel = Inr u" "rdf_setup u = Inr (u', cfg)"
    "''rdf_OO'' \<notin> dom (session_state s) \<or> rdf_button i"
    "fst (rdf_section c fs sel i s) = None"
  shows "\<exists>r ex. rdf_run c u' cfg = Inr r \<and> exp_csv c = Inr ex
    \<and> session_state (snd (rdf_section c fs sel i s)) = (session_state s)(''rdf_OO'' \<mapsto> RDF r)
    \<and> RunAnalysis ''rdf_OO'' \<in> set (calls (snd (rdf_section c fs sel i s)))
    \<and> rendered (snd (rdf_section c fs sel i s)) = rendered s @ [PlotlyChart (rdf_figure ex r)]"
proof (cases "rdf_run c u' cfg")
  case (Inl e)
  with assms show ?thesis
    by (auto simp: rdf_section_def and_then_ok cached_run_fst called_simps)
next
  case r: (Inr r)
  show ?thesis
  proof (cases "exp_csv c")
    case (Inl e)
    with assms r show ?thesis
      by (auto simp: rdf_section_def and_then_ok cached_run_fst cached_run_session called_simps
          lookup_def)
  next
    case ex: (Inr ex)
    have "session_state (snd (rdf_section c fs sel i s)) = (session_state s)(''rdf_OO'' \<mapsto> RDF r)
      \<and> RunAnalysis ''rdf_OO'' \<in> set (calls (snd (rdf_section c fs sel i s)))
      \<and> rendered (snd (rdf_section c fs sel i s)) = rendered s @ [PlotlyChart (rdf_figure ex r)]"
      using assms(1-4) r ex
      by (auto simp: rdf_section_def and_then_snd cached_run_fst cached_run_session
          cached_run_rendered cached_run_calls called_simps shown_simps lookup_def as_rdf_def)
    with r ex show ?thesis by blast
  qed
qed

text \<open>Claim C8. For every system that the builder gives: when RDF is enabled and the
  analysis is to be run (the session has no RDF yet, or the recalculate button is
  pressed), a run of the RDF section that completes has run the pair function of the
  library on the system with two transformations, first the unwrap of all atoms, then
  the wrap, by residues, of the atoms whose residue is not 201, and with the
  configuration: the atoms named O with themselves, the range \<open>[2, 9]\<close>, 500 bins and the
  exclusion block \<open>(1, 1)\<close>; it has stored the result of this run under \<^verbatim>\<open>rdf_OO\<close> and
  shown it as the series Calculated of its chart. With this block the pairs that are
  counted are the pairs of two different oxygens, so that no atom is paired with itself;
  the 501 bin edges go from 2 to 9 in equal steps.\<close>

theorem rdf_section_configuration:
  fixes u :: universe
  assumes enabled: "rdf_check i" and built: "create_u c fs sel = Inr u"
    and to_run: "''rdf_OO'' \<notin> dom (session_state s) \<or> rdf_button i"
    and completes: "fst (rdf_section c fs sel i s) = None"
  defines "oxygens \<equiv> filter (\<lambda>k. name (atoms u ! k) = ''O'') [0..<length (atoms u)]"
  defines "cfg \<equiv> \<lparr>g1 = oxygens, g2 = oxygens, nbins = 500, rdf_range = (2, 9),
                   exclusion_block = Some (1, 1)\<rparr>"
  defines "u' \<equiv> u\<lparr>transformations :=
                    [unwrap [0..<length (atoms u)],
                     wrap (filter (\<lambda>k. resid (atoms u ! k) \<noteq> 201) [0..<length (atoms u)])
                       Residues]\<rparr>"
  shows "(\<exists>r ex. rdf_run c u' cfg = Inr r \<and> exp_csv c = Inr ex
          \<and> session_state (snd (rdf_section c fs sel i s)) =
              (session_state s)(''rdf_OO'' \<mapsto> RDF r)
          \<and> RunAnalysis ''rdf_OO'' \<in> set (calls (snd (rdf_section c fs sel i s)))
          \<and> rendered (snd (rdf_section c fs sel i s)) =
              rendered s @ [PlotlyChart (rdf_figure ex r)]
          \<and> traces (rdf_figure ex r) ! 1 = Scatter (bins r) (rdf r) ''Calculated'' [])
    \<and> rdf_setup u = Inr (u', cfg)
    \<and> (\<forall>p q. (p, q) \<in> set (counted_pairs cfg) \<longleftrightarrow>
          p < length (atoms u) \<and> name (atoms u ! p) = ''O''
          \<and> q < length (atoms u) \<and> name (atoms u ! q) = ''O'' \<and> p \<noteq> q)
    \<and> length (bin_edges cfg) = 500 + 1
    \<and> bin_edges cfg ! 0 = 2
    \<and> bin_edges cfg ! 500 = 9
    \<and> (\<forall>k<500. bin_edges cfg ! Suc k - bin_edges cfg ! k = 7 / 500)"
proof -
  have st: "rdf_setup u = Inr (u', cfg)"
    unfolding u'_def cfg_def oxygens_def
    using rdf_setup_built[OF create_u_fresh[OF built]] .
  have run: "\<exists>r ex. rdf_run c u' cfg = Inr r \<and> exp_csv c = Inr ex
          \<and> session_state (snd (rdf_section c fs sel i s)) =
              (session_state s)(''rdf_OO'' \<mapsto> RDF r)
          \<and> RunAnalysis ''rdf_OO'' \<in> set (calls (snd (rdf_section c fs sel i s)))
          \<and> rendered (snd (rdf_section c fs sel i s)) =
              rendered s @ [PlotlyChart (rdf_figure ex r)]
          \<and> traces (rdf_figure ex r) ! 1 = Scatter (bins r) (rdf r) ''Calculated'' []"
    using rdf_section_runs[OF enabled built st to_run completes]
    by (auto simp: rdf_figure_def)
  have d: "distinct oxygens" by (simp add: oxygens_def)
  have pairs: "(p, q) \<in> set (counted_pairs cfg) \<longleftrightarrow>
          p < length (atoms u) \<and> name (atoms u ! p) = ''O''
          \<and> q < length (atoms u) \<and> name (atoms u ! q) = ''O'' \<and> p \<noteq> q" for p q
    unfolding cfg_def counted_pairs_block_one[OF d]
    by (auto simp: oxygens_def)
  have len: "length (bin_edges cfg) = 500 + 1"
    by (simp add: bin_edges_def cfg_def)
  have nth: "k \<le> 500 \<Longrightarrow> bin_edges cfg ! k = 2 + real k * 7 / 500" for k
    by (simp add: bin_edges_def cfg_def nth_append del: upt_Suc)
  have step: "k < 500 \<Longrightarrow> bin_edges cfg ! Suc k - bin_edges cfg ! k = 7 / 500" for k
    using nth[of k] nth[of "Suc k"] by (simp add: field_simps)
  have e0: "bin_edges cfg ! 0 = 2" and e500: "bin_edges cfg ! 500 = 9"
    using nth[of 0] nth[of 500] by simp_all
  from run st pairs len e0 e500 step show ?thesis
    by (intro conjI allI impI) (simp_all only:)
qed

theorem rdf_section_configuration_witness:
  "rdf_check (demo_visit\<lparr>rdf_check := True\<rparr>)
   \<and> create_u demo_collab demo_files demo_selection = Inr demo_universe
   \<and> ''rdf_OO'' \<notin> dom (session_state (fresh Map.empty))
   \<and> fst (rdf_section demo_collab demo_files demo_selection (demo_visit\<lparr>rdf_check := True\<rparr>)
        (fresh Map.empty)) = None
   \<and> rdf_setup demo_universe =
       Inr (demo_universe\<lparr>transformations := [unwrap [0, 1, 2], wrap [0, 1] Residues]\<rparr>,
            \<lparr>g1 = [0, 2], g2 = [0, 2], nbins = 500, rdf_range = (2, 9),
             exclusion_block = Some (1, 1)\<rparr>)
   \<and> snd (rdf_section demo_collab demo_files demo_selection (demo_visit\<lparr>rdf_check := True\<rparr>)
        (fresh Map.empty)) =
       \<lparr>session_state = [''rdf_OO'' \<mapsto> RDF \<lparr>bins = [], rdf = []\<rparr>],
        calls = [BuildSystem demo_selection, RunAnalysis ''rdf_OO''],
        rendered = [PlotlyChart (rdf_figure \<lparr>r_col = [], g_OO_col = []\<rparr> \<lparr>bins = [], rdf = []\<rparr>)]\<rparr>
   \<and> counted_pairs \<lparr>g1 = [0, 2], g2 = [0, 2], nbins = 500, rdf_range = (2, 9),
                     exclusion_block = Some (1, 1)\<rparr> = [(0, 2), (2, 0)]"
  using rdf_section_configuration[of "demo_visit\<lparr>rdf_check := True\<rparr>" demo_collab demo_files
      demo_selection demo_universe "fresh Map.empty"]
  by (simp add: rdf_section_def rdf_setup_def add_transformations_def select_atoms_def
      all_atoms_def and_then_def cached_run_def run_and_store_def lookup_def as_rdf_def
      called_def shown_def fresh_def demo_visit_def demo_collab_def demo_files_def
      demo_selection_def demo_universe_def create_u_def mda_Universe_def
      trajectory_file_def read_file_def counted_pairs_def Let_def upt_rec)

end
